theory Spec2Isabelle
  imports Complex_Main
begin

section \<open>Python values\<close>

text \<open>
  The macro engine of \<^verbatim>\<open>inputremapper/injection/macros/macro.py\<close> is dynamically typed.
  The arguments a macro function receives are \<^verbatim>\<open>None\<close>, integers, floats, strings,
  \<^verbatim>\<open>Variable\<close> objects (written \<^verbatim>\<open>$name\<close> in the macro language) and, in some positions,
  \<^verbatim>\<open>Macro\<close> objects. A float is a finite value (kept as a rational: only its truncation and
  its equality are used by the code), an infinity or a NaN. A \<^verbatim>\<open>Macro\<close> object in an argument
  position is kept as \<open>PMacro\<close> with its source text: the checks only look at its class and its
  \<^verbatim>\<open>repr\<close>.
\<close>

datatype pyfloat = Fin rat | PosInf | NegInf | NaN

datatype pyval =
    PNone
  | PInt int
  | PFloat pyfloat
  | PStr string
  | PVar string
  | PMacro "string option"

text \<open>The entries of an \<^verbatim>\<open>allowed_types\<close> list: \<^verbatim>\<open>int\<close>, \<^verbatim>\<open>float\<close>, \<^verbatim>\<open>str\<close>, \<^verbatim>\<open>Macro\<close>, \<^verbatim>\<open>None\<close>.\<close>

datatype pytype = TInt | TFloat | TStr | TMacro | TNone

datatype exc =
    TypeError
  | ValueError
  | KeyError
  | SyntaxError
  | AttributeError
  | OverflowError
  | ZeroDivisionError
  | TimeoutError
  | OSError
  | CancelledError

text \<open>
  \<^verbatim>\<open>except Exception\<close> catches every class above but \<^verbatim>\<open>asyncio.CancelledError\<close>, which derives
  from \<^verbatim>\<open>BaseException\<close>.
\<close>

fun is_Exception :: "exc \<Rightarrow> bool" where
  "is_Exception CancelledError = False"
| "is_Exception _ = True"

text \<open>
  What the module imports and calls but does not define: the symbol table
  \<^verbatim>\<open>system_mapping\<close>, the kernel code table \<^verbatim>\<open>ecodes\<close>, and the conversions of the Python
  runtime between strings and numbers. They are parameters of the model. \<open>int_of_str s\<close> and
  \<open>float_of_str s\<close> are \<open>None\<close> where \<^verbatim>\<open>int(s)\<close> and \<^verbatim>\<open>float(s)\<close> raise \<^verbatim>\<open>ValueError\<close>.
\<close>

record runtime =
  system_mapping :: "string \<rightharpoonup> int"
  ecodes :: "string \<rightharpoonup> int"
  int_of_str :: "string \<rightharpoonup> int"
  float_of_str :: "string \<rightharpoonup> pyfloat"
  float_of_int :: "int \<Rightarrow> pyfloat"
  str_of_int :: "int \<Rightarrow> string"
  str_of_float :: "pyfloat \<Rightarrow> string"

text \<open>The kernel's input event codes used by the module (\<^verbatim>\<open>linux/input-event-codes.h\<close>).\<close>

definition EV_KEY :: pyval where "EV_KEY = PInt 1"
definition EV_REL :: pyval where "EV_REL = PInt 2"
definition REL_X :: int where "REL_X = 0"
definition REL_Y :: int where "REL_Y = 1"
definition REL_HWHEEL :: int where "REL_HWHEEL = 6"
definition REL_WHEEL :: int where "REL_WHEEL = 8"

subsection \<open>Conversions\<close>

text \<open>\<^verbatim>\<open>int(f)\<close> on a finite float truncates toward zero.\<close>

definition trunc :: "rat \<Rightarrow> int" where
  "trunc q = (if 0 \<le> q then \<lfloor>q\<rfloor> else \<lceil>q\<rceil>)"

definition repr_code :: "string option \<Rightarrow> string" where
  "repr_code c = (case c of None \<Rightarrow> ''None'' | Some s \<Rightarrow> s)"

text \<open>\<^verbatim>\<open>str(value)\<close>; \<^verbatim>\<open>Variable\<close> and \<^verbatim>\<open>Macro\<close> define \<^verbatim>\<open>__repr__\<close> only, which \<^verbatim>\<open>str\<close> falls back to.\<close>

fun py_str :: "runtime \<Rightarrow> pyval \<Rightarrow> string" where
  "py_str rt PNone = ''None''"
| "py_str rt (PInt i) = str_of_int rt i"
| "py_str rt (PFloat f) = str_of_float rt f"
| "py_str rt (PStr s) = s"
| "py_str rt (PVar name) = ''<Variable \"'' @ name @ ''\">''"
| "py_str rt (PMacro c) = ''<Macro \"'' @ repr_code c @ ''\">''"

text \<open>
  \<^verbatim>\<open>allowed_type(value)\<close>, the constructor call inside \<^verbatim>\<open>_type_check\<close>. \<^verbatim>\<open>int\<close> of an infinity
  raises \<^verbatim>\<open>OverflowError\<close>, of a NaN \<^verbatim>\<open>ValueError\<close>; \<^verbatim>\<open>Macro(value)\<close> lacks the second argument
  of \<^verbatim>\<open>Macro.__init__\<close> and raises \<^verbatim>\<open>TypeError\<close>.
\<close>

fun construct :: "runtime \<Rightarrow> pytype \<Rightarrow> pyval \<Rightarrow> exc + pyval" where
  "construct rt TInt (PInt i) = Inr (PInt i)"
| "construct rt TInt (PFloat (Fin q)) = Inr (PInt (trunc q))"
| "construct rt TInt (PFloat NaN) = Inl ValueError"
| "construct rt TInt (PFloat _) = Inl OverflowError"
| "construct rt TInt (PStr s) =
     (case int_of_str rt s of None \<Rightarrow> Inl ValueError | Some i \<Rightarrow> Inr (PInt i))"
| "construct rt TInt _ = Inl TypeError"
| "construct rt TFloat (PInt i) = Inr (PFloat (float_of_int rt i))"
| "construct rt TFloat (PFloat f) = Inr (PFloat f)"
| "construct rt TFloat (PStr s) =
     (case float_of_str rt s of None \<Rightarrow> Inl ValueError | Some f \<Rightarrow> Inr (PFloat f))"
| "construct rt TFloat _ = Inl TypeError"
| "construct rt TStr v = Inr (PStr (py_str rt v))"
| "construct rt TMacro v = Inl TypeError"
| "construct rt TNone v = Inl TypeError"

fun isinstance :: "pyval \<Rightarrow> pytype \<Rightarrow> bool" where
  "isinstance (PInt _) TInt = True"
| "isinstance (PFloat _) TFloat = True"
| "isinstance (PStr _) TStr = True"
| "isinstance (PMacro _) TMacro = True"
| "isinstance _ _ = False"

subsection \<open>\<^verbatim>\<open>_type_check\<close> and its relatives\<close>

text \<open>
  The loop of \<^verbatim>\<open>_type_check\<close> over \<^verbatim>\<open>allowed_types\<close>. For each type it first tries the
  constructor and returns what it built; only a \<^verbatim>\<open>TypeError\<close> or \<^verbatim>\<open>ValueError\<close> of the
  constructor is caught. The two message parameters \<^verbatim>\<open>display_name\<close> and \<^verbatim>\<open>position\<close> only
  choose the text of the final \<^verbatim>\<open>TypeError\<close> and are left out.
\<close>

fun type_check_loop :: "runtime \<Rightarrow> pyval \<Rightarrow> pytype list \<Rightarrow> exc + pyval" where
  "type_check_loop rt v [] = Inl TypeError"
| "type_check_loop rt v (TNone # ts) =
     (if v = PNone then Inr v else type_check_loop rt v ts)"
| "type_check_loop rt v (t # ts) =
     (case construct rt t v of
        Inr v' \<Rightarrow> Inr v'
      | Inl e \<Rightarrow>
          if e = TypeError \<or> e = ValueError
          then (if isinstance v t then Inr v else type_check_loop rt v ts)
          else Inl e)"

fun is_Variable :: "pyval \<Rightarrow> bool" where
  "is_Variable (PVar _) = True"
| "is_Variable _ = False"

definition type_check :: "runtime \<Rightarrow> pyval \<Rightarrow> pytype list \<Rightarrow> exc + pyval" where
  "type_check rt v allowed_types =
     (if is_Variable v then Inr v else type_check_loop rt v allowed_types)"

definition type_check_keyname :: "runtime \<Rightarrow> pyval \<Rightarrow> exc + pyval" where
  "type_check_keyname rt keyname =
     (if is_Variable keyname then Inr keyname
      else case system_mapping rt (py_str rt keyname) of
             None \<Rightarrow> Inl KeyError
           | Some c \<Rightarrow> Inr (PInt c))"

text \<open>
  The pattern \<^verbatim>\<open>^[A-Za-z_][A-Za-z_0-9]*$\<close> of \<^verbatim>\<open>_type_check_variablename\<close>, matched with
  \<^verbatim>\<open>re.match\<close>: \<^verbatim>\<open>$\<close> also matches before one final newline.
\<close>

definition name_start :: "char \<Rightarrow> bool" where
  "name_start c =
     (let n = (of_char c :: nat) in (65 \<le> n \<and> n \<le> 90) \<or> (97 \<le> n \<and> n \<le> 122) \<or> n = 95)"

definition name_char :: "char \<Rightarrow> bool" where
  "name_char c = (name_start c \<or> (let n = (of_char c :: nat) in 48 \<le> n \<and> n \<le> 57))"

fun is_identifier :: "string \<Rightarrow> bool" where
  "is_identifier [] = False"
| "is_identifier (c # cs) = (name_start c \<and> list_all name_char cs)"

definition legit_name :: "string \<Rightarrow> bool" where
  "legit_name s =
     (is_identifier s \<or> (s \<noteq> [] \<and> last s = CHR 0x0A \<and> is_identifier (butlast s)))"

definition type_check_variablename :: "pyval \<Rightarrow> exc + string" where
  "type_check_variablename name =
     (case name of
        PStr s \<Rightarrow> if legit_name s then Inr s else Inl SyntaxError
      | _ \<Rightarrow> Inl SyntaxError)"

subsection \<open>The variable store and \<^verbatim>\<open>_resolve\<close>\<close>

text \<open>
  \<^verbatim>\<open>macro_variables\<close> is a \<^verbatim>\<open>SharedDict\<close>; its keys are the names \<^verbatim>\<open>add_set\<close> has checked, so
  strings. \<^verbatim>\<open>get\<close> of a key that is not there is \<^verbatim>\<open>None\<close>.
\<close>

type_synonym store = "string \<rightharpoonup> pyval"

definition store_get :: "store \<Rightarrow> pyval \<Rightarrow> pyval" where
  "store_get vars key =
     (case key of
        PStr name \<Rightarrow> (case vars name of None \<Rightarrow> PNone | Some v \<Rightarrow> v)
      | _ \<Rightarrow> PNone)"

text \<open>
  \<^verbatim>\<open>_resolve(argument, allowed_types)\<close>; an absent or empty \<^verbatim>\<open>allowed_types\<close> is \<open>[]\<close>.
\<close>

definition resolve :: "runtime \<Rightarrow> store \<Rightarrow> pyval \<Rightarrow> pytype list \<Rightarrow> exc + pyval" where
  "resolve rt vars argument allowed_types =
     (case argument of
        PVar name \<Rightarrow>
          (let v = store_get vars (PStr name)
           in if allowed_types \<noteq> [] then type_check rt v allowed_types else Inr v)
      | _ \<Rightarrow> Inr argument)"

text \<open>
  The \<^verbatim>\<open>==\<close> of Python on these values. Numbers compare by value across \<^verbatim>\<open>int\<close> and
  \<^verbatim>\<open>float\<close>, a NaN equals nothing. \<^verbatim>\<open>Variable\<close> and \<^verbatim>\<open>Macro\<close> define no \<^verbatim>\<open>__eq__\<close>, so they
  compare by object identity; the operands the module compares are an argument captured by
  a step and a value read back from the store, or two values read back from the store,
  which are never the same object.
\<close>

fun float_eq :: "pyfloat \<Rightarrow> pyfloat \<Rightarrow> bool" where
  "float_eq NaN _ = False"
| "float_eq _ NaN = False"
| "float_eq a b = (a = b)"

fun py_eq :: "pyval \<Rightarrow> pyval \<Rightarrow> bool" where
  "py_eq PNone PNone = True"
| "py_eq (PInt a) (PInt b) = (a = b)"
| "py_eq (PInt a) (PFloat b) = float_eq (Fin (of_int a)) b"
| "py_eq (PFloat a) (PInt b) = float_eq a (Fin (of_int b))"
| "py_eq (PFloat a) (PFloat b) = float_eq a b"
| "py_eq (PStr a) (PStr b) = (a = b)"
| "py_eq _ _ = False"


section \<open>Macros\<close>

text \<open>
  A task of a macro is a closure that a builder method appended to \<^verbatim>\<open>self.tasks\<close>. Each
  constructor of \<open>step\<close> is one such closure together with the variables it captured. A child
  macro captured by a closure is also an element of \<^verbatim>\<open>self.child_macros\<close>; the step holds its
  position in that list, so that both name the same object.
\<close>

datatype step =
    HoldWait
  | HoldKey pyval
  | HoldMacro nat
  | Modify pyval nat
  | Repeat pyval nat
  | Key pyval
  | Event pyval pyval pyval
  | KeycodePause
  | Mouse int int pyval
  | Wheel int int pyval
  | Wait pyval
  | SetVar string pyval
  | Ifeq pyval pyval "nat option" "nat option"
  | IfEq pyval pyval "nat option" "nat option"
  | IfTap "nat option" "nat option" pyval
  | IfSingle "nat option" "nat option" pyval

datatype action = PRESS | PRESS_NEGATIVE | RELEASE | OTHER_ACTION nat

type_synonym caps = "pyval \<rightharpoonup> pyval set"

text \<open>
  The attributes \<^verbatim>\<open>Macro.__init__\<close> sets, but \<^verbatim>\<open>child_macros\<close>. \<open>macro_context\<close> (the attribute \<^verbatim>\<open>context\<close>) is \<open>None\<close> for a
  macro built without a context, and otherwise holds what
  \<^verbatim>\<open>context.preset.get("macros.keystroke_sleep_ms")\<close> returns. An \<^verbatim>\<open>asyncio.Event\<close> is its flag.
\<close>

record macro_fields =
  code :: "string option"
  macro_context :: "pyval option"
  tasks :: "step list"
  trigger_release_event :: bool
  trigger_press_event :: bool
  running :: bool
  capabilities :: caps
  keystroke_sleep_ms :: pyval
  new_event_arrived :: bool
  newest_event :: "(int \<times> int) option"
  newest_action :: "action option"

datatype macro = Macro (attrs: macro_fields) (child_macros: "macro list")

definition Macro_init :: "string option \<Rightarrow> pyval option \<Rightarrow> macro" where
  "Macro_init c ctx =
     Macro \<lparr> code = c, macro_context = ctx, tasks = [],
             trigger_release_event = True, trigger_press_event = False,
             running = False,
             capabilities = [EV_KEY \<mapsto> {}, EV_REL \<mapsto> {}],
             keystroke_sleep_ms = PNone,
             new_event_arrived = False, newest_event = None, newest_action = None \<rparr> []"

definition is_holding :: "macro_fields \<Rightarrow> bool" where
  "is_holding f = (\<not> trigger_release_event f)"

text \<open>\<^verbatim>\<open>capabilities[t].add(c)\<close>, with the \<^verbatim>\<open>KeyError\<close> of a missing event type.\<close>

definition caps_add :: "pyval \<Rightarrow> pyval \<Rightarrow> caps \<Rightarrow> exc + caps" where
  "caps_add t c cp = (case cp t of None \<Rightarrow> Inl KeyError | Some s \<Rightarrow> Inr (cp(t \<mapsto> insert c s)))"

subsection \<open>\<^verbatim>\<open>get_capabilities\<close>\<close>

text \<open>The inner loop of \<^verbatim>\<open>get_capabilities\<close>: every event type of the child is merged in.\<close>

definition merge_caps :: "caps \<Rightarrow> caps \<Rightarrow> caps" where
  "merge_caps a b =
     (\<lambda>t. case b t of
            None \<Rightarrow> a t
          | Some s \<Rightarrow> Some ((case a t of None \<Rightarrow> {} | Some s' \<Rightarrow> s') \<union> s))"

fun get_capabilities :: "macro \<Rightarrow> caps" where
  "get_capabilities (Macro f cs) =
     fold (\<lambda>m acc. merge_caps acc (get_capabilities m)) cs (capabilities f)"

text \<open>A pair of an event type and a code is declared by a capability dictionary.\<close>

definition declares :: "caps \<Rightarrow> pyval \<Rightarrow> pyval \<Rightarrow> bool" where
  "declares cp t c = (case cp t of None \<Rightarrow> False | Some s \<Rightarrow> c \<in> s)"

subsection \<open>Trigger state and event observer\<close>

fun press_trigger :: "macro \<Rightarrow> macro" where
  "press_trigger (Macro f cs) =
     (if is_holding f then Macro f cs
      else Macro (f\<lparr>trigger_release_event := False, trigger_press_event := True\<rparr>)
                 (map press_trigger cs))"

fun release_trigger :: "macro \<Rightarrow> macro" where
  "release_trigger (Macro f cs) =
     Macro (f\<lparr>trigger_release_event := True, trigger_press_event := False\<rparr>)
           (map release_trigger cs)"

fun notify :: "int \<times> int \<Rightarrow> action \<Rightarrow> macro \<Rightarrow> macro" where
  "notify ev act (Macro f cs) =
     Macro (f\<lparr>newest_event := Some ev, newest_action := Some act, new_event_arrived := True\<rparr>)
           (map (notify ev act) cs)"

subsection \<open>Addressing a macro inside the tree\<close>

text \<open>
  A running macro is an object below the macro that was started. It is addressed by the
  positions in \<^verbatim>\<open>child_macros\<close> that lead to it from the root; a path is followed as far as
  its positions exist, so that every path names one object of the tree. \<open>sub_at\<close> reads the
  object at a path and \<open>upd_at\<close> changes it in place.
\<close>

type_synonym path = "nat list"

fun sub_at :: "path \<Rightarrow> macro \<Rightarrow> macro" where
  "sub_at [] m = m"
| "sub_at (i # p) (Macro f cs) = (if i < length cs then sub_at p (cs ! i) else Macro f cs)"

fun upd_at :: "path \<Rightarrow> (macro \<Rightarrow> macro) \<Rightarrow> macro \<Rightarrow> macro" where
  "upd_at [] g m = g m"
| "upd_at (i # p) g (Macro f cs) =
     (if i < length cs then Macro f (cs[i := upd_at p g (cs ! i)]) else g (Macro f cs))"

definition map_fields :: "(macro_fields \<Rightarrow> macro_fields) \<Rightarrow> macro \<Rightarrow> macro" where
  "map_fields g m = Macro (g (attrs m)) (child_macros m)"


section \<open>Running a macro\<close>

text \<open>
  The state a run works on: the tree of macro objects below the macro that was started, the
  variable store, the calls the handler has received, the lines \<^verbatim>\<open>logger.error\<close> has written,
  and what the rest of the event loop will do at each suspension of the run.
\<close>

type_synonym event = "pyval \<times> pyval \<times> pyval"

datatype log_entry = AlreadyRunning "string option" | MacroFailed "string option" exc

text \<open>
  What other tasks of the event loop do to the state while the run is suspended: the
  injector calls \<^verbatim>\<open>press_trigger\<close>, \<^verbatim>\<open>release_trigger\<close> or \<^verbatim>\<open>notify\<close> on a macro of the tree, or
  another macro writes a variable.
\<close>

datatype ext_action =
    PressTrigger path
  | ReleaseTrigger path
  | Notify path "int \<times> int" action
  | StoreSet string pyval

text \<open>
  One suspension of the run: it is resumed after the actions, or the deadline of the
  enclosing \<^verbatim>\<open>asyncio.wait_for\<close> passes after them, or the task is cancelled. Time itself is
  not modelled: how long a sleep lasts and whether a deadline passes is the schedule's choice.
\<close>

datatype tick = Resume "ext_action list" | Expire "ext_action list" | Cancel

text \<open>
  The handler: whether \<^verbatim>\<open>callable(handler)\<close> holds, and the exception, if any, that a call
  raises given the calls before it.
\<close>

record handler =
  callable :: bool
  raises :: "event list \<Rightarrow> event \<Rightarrow> exc option"

record world =
  root :: macro
  macro_variables :: store
  emitted :: "event list"
  logged :: "log_entry list"
  schedule :: "tick list"

text \<open>
  A coroutine returns, raises, or never comes back (\<open>Hang\<close>: the schedule has no further
  tick for a suspended run, or a loop spins without suspending until the fuel is used up).
\<close>

datatype res = Done world | Raised exc world | Hang

definition self_at :: "path \<Rightarrow> world \<Rightarrow> macro_fields" where
  "self_at p w = attrs (sub_at p (root w))"

definition upd_self :: "path \<Rightarrow> (macro_fields \<Rightarrow> macro_fields) \<Rightarrow> world \<Rightarrow> world" where
  "upd_self p g w = w\<lparr>root := upd_at p (map_fields g) (root w)\<rparr>"

fun apply_action :: "ext_action \<Rightarrow> world \<Rightarrow> world" where
  "apply_action (PressTrigger q) w = w\<lparr>root := upd_at q press_trigger (root w)\<rparr>"
| "apply_action (ReleaseTrigger q) w = w\<lparr>root := upd_at q release_trigger (root w)\<rparr>"
| "apply_action (Notify q ev act) w = w\<lparr>root := upd_at q (notify ev act) (root w)\<rparr>"
| "apply_action (StoreSet name v) w = w\<lparr>macro_variables := (macro_variables w)(name \<mapsto> v)\<rparr>"

subsection \<open>Sequencing\<close>

definition andthen :: "(world \<Rightarrow> res) \<Rightarrow> (world \<Rightarrow> res) \<Rightarrow> world \<Rightarrow> res" where
  "andthen m k w = (case m w of Done w' \<Rightarrow> k w' | Raised e w' \<Rightarrow> Raised e w' | Hang \<Rightarrow> Hang)"

fun seq :: "(world \<Rightarrow> res) list \<Rightarrow> world \<Rightarrow> res" where
  "seq [] w = Done w"
| "seq (m # ms) w = andthen m (seq ms) w"

text \<open>\<^verbatim>\<open>try: m  except asyncio.TimeoutError: k\<close>\<close>

definition catch_timeout :: "(world \<Rightarrow> res) \<Rightarrow> (world \<Rightarrow> res) \<Rightarrow> world \<Rightarrow> res" where
  "catch_timeout m k w =
     (case m w of
        Raised e w' \<Rightarrow> if e = TimeoutError then k w' else Raised e w'
      | r \<Rightarrow> r)"

subsection \<open>The primitive operations of a task\<close>

text \<open>\<^verbatim>\<open>handler(type, code, value)\<close>: the call is recorded, then the handler may raise.\<close>

definition call_handler :: "handler \<Rightarrow> event \<Rightarrow> world \<Rightarrow> res" where
  "call_handler h e w =
     (let w' = w\<lparr>emitted := emitted w @ [e]\<rparr>
      in case raises h (emitted w) e of None \<Rightarrow> Done w' | Some x \<Rightarrow> Raised x w')"

text \<open>\<^verbatim>\<open>self.capabilities[t].add(c)\<close>\<close>

definition add_capability :: "path \<Rightarrow> pyval \<Rightarrow> pyval \<Rightarrow> world \<Rightarrow> res" where
  "add_capability p t c w =
     (case caps_add t c (capabilities (self_at p w)) of
        Inl e \<Rightarrow> Raised e w
      | Inr cp \<Rightarrow> Done (upd_self p (\<lambda>f. f\<lparr>capabilities := cp\<rparr>) w))"

text \<open>An \<^verbatim>\<open>await\<close> that suspends with no deadline of its own, such as \<^verbatim>\<open>asyncio.sleep\<close>.\<close>

definition suspend :: "world \<Rightarrow> res" where
  "suspend w =
     (case schedule w of
        [] \<Rightarrow> Hang
      | Cancel # ts \<Rightarrow> Raised CancelledError (w\<lparr>schedule := ts\<rparr>)
      | Resume as # ts \<Rightarrow> Done (fold apply_action as (w\<lparr>schedule := ts\<rparr>))
      | Expire as # ts \<Rightarrow> Done (fold apply_action as (w\<lparr>schedule := ts\<rparr>)))"

text \<open>
  \<^verbatim>\<open>await event.wait()\<close>. A set event returns at once, without suspending. Otherwise the
  waiter is woken by the first \<^verbatim>\<open>set()\<close>, also when the event is cleared again before the
  waiter runs: \<open>apply_watch\<close> looks at the flag after each action of a tick. Under a
  \<^verbatim>\<open>wait_for\<close> (\<open>timed\<close>), a tick at which the deadline passes raises \<^verbatim>\<open>TimeoutError\<close>.
\<close>

fun apply_watch :: "(world \<Rightarrow> bool) \<Rightarrow> ext_action list \<Rightarrow> world \<Rightarrow> bool \<times> world" where
  "apply_watch flag [] w = (False, w)"
| "apply_watch flag (a # as) w =
     (let w' = apply_action a w; r = apply_watch flag as w'
      in (flag w' \<or> fst r, snd r))"

fun await_ticks :: "bool \<Rightarrow> (world \<Rightarrow> bool) \<Rightarrow> tick list \<Rightarrow> world \<Rightarrow> res" where
  "await_ticks timed flag [] w = Hang"
| "await_ticks timed flag (Cancel # ts) w = Raised CancelledError (w\<lparr>schedule := ts\<rparr>)"
| "await_ticks timed flag (Resume as # ts) w =
     (let r = apply_watch flag as (w\<lparr>schedule := ts\<rparr>)
      in if fst r then Done (snd r) else await_ticks timed flag ts (snd r))"
| "await_ticks timed flag (Expire as # ts) w =
     (if timed then Raised TimeoutError (fold apply_action as (w\<lparr>schedule := ts\<rparr>))
      else let r = apply_watch flag as (w\<lparr>schedule := ts\<rparr>)
           in if fst r then Done (snd r) else await_ticks timed flag ts (snd r))"

definition event_wait :: "bool \<Rightarrow> (macro_fields \<Rightarrow> bool) \<Rightarrow> path \<Rightarrow> world \<Rightarrow> res" where
  "event_wait timed flag p w =
     (if flag (self_at p w) then Done w
      else await_ticks timed (\<lambda>w'. flag (self_at p w')) (schedule w) w)"

text \<open>
  \<^verbatim>\<open>x / 1000\<close>, the conversion of milliseconds. The quotient is only the duration of a sleep
  or of a timeout, so what is kept of the division is the exception it raises, if any:
  \<^verbatim>\<open>TypeError\<close> unless \<open>x\<close> is a number, and \<^verbatim>\<open>OverflowError\<close> for an \<^verbatim>\<open>int\<close> whose quotient
  rounds beyond the largest \<^verbatim>\<open>float\<close>, that is for \<^verbatim>\<open>abs(x) >= 1000 * (2**1024 - 2**970)\<close>.
  A \<^verbatim>\<open>float\<close> divides without raising.
\<close>

fun div_1000 :: "pyval \<Rightarrow> exc option" where
  "div_1000 (PInt k) =
     (if 1000 * (2 ^ 1024 - 2 ^ 970) \<le> \<bar>k\<bar> then Some OverflowError else None)"
| "div_1000 (PFloat _) = None"
| "div_1000 _ = Some TypeError"

text \<open>\<^verbatim>\<open>_keycode_pause\<close>: \<^verbatim>\<open>await asyncio.sleep(self.keystroke_sleep_ms / 1000)\<close>\<close>

definition keycode_pause :: "path \<Rightarrow> world \<Rightarrow> res" where
  "keycode_pause p w =
     (case div_1000 (keystroke_sleep_ms (self_at p w)) of
        Some e \<Rightarrow> Raised e w
      | None \<Rightarrow> suspend w)"

text \<open>\<^verbatim>\<open>await asyncio.sleep(1 / resolved_speed)\<close> of the wheel task.\<close>

fun wheel_sleep :: "pyval \<Rightarrow> world \<Rightarrow> res" where
  "wheel_sleep (PInt k) w = (if k = 0 then Raised ZeroDivisionError w else suspend w)"
| "wheel_sleep (PFloat (Fin q)) w = (if q = 0 then Raised ZeroDivisionError w else suspend w)"
| "wheel_sleep (PFloat _) w = suspend w"
| "wheel_sleep _ w = Raised TypeError w"

text \<open>
  Running the child macro at position \<open>i\<close> of \<^verbatim>\<open>self.child_macros\<close>. A step of a built macro
  always names a position that exists.
\<close>

definition on_child :: "path \<Rightarrow> nat \<Rightarrow> (path \<Rightarrow> world \<Rightarrow> res) \<Rightarrow> world \<Rightarrow> res" where
  "on_child p i r w =
     (if i < length (child_macros (sub_at p (root w))) then r (p @ [i]) w else Hang)"

text \<open>\<^verbatim>\<open>if branch is not None: await branch.run(handler)\<close>\<close>

definition run_branch :: "nat option \<Rightarrow> (nat \<Rightarrow> world \<Rightarrow> res) \<Rightarrow> world \<Rightarrow> res" where
  "run_branch b child w = (case b of None \<Rightarrow> Done w | Some i \<Rightarrow> child i w)"


subsection \<open>The tasks\<close>

text \<open>
  Each definition is the body of the closure a builder appends. A task that runs a child
  macro takes the run of the child as a parameter; the recursion is closed in \<open>run\<close> below.
\<close>

text \<open>\<^verbatim>\<open>add_hold\<close> with a key name.\<close>

definition hold_key_task :: "runtime \<Rightarrow> handler \<Rightarrow> path \<Rightarrow> pyval \<Rightarrow> world \<Rightarrow> res" where
  "hold_key_task rt h p c w =
     (case resolve rt (macro_variables w) c [TInt] of
        Inl e \<Rightarrow> Raised e w
      | Inr resolved_code \<Rightarrow>
          seq [add_capability p EV_KEY resolved_code,
               call_handler h (EV_KEY, resolved_code, PInt 1),
               event_wait False trigger_release_event p,
               call_handler h (EV_KEY, resolved_code, PInt 0)] w)"

text \<open>\<^verbatim>\<open>add_modify\<close>\<close>

definition modify_task ::
  "runtime \<Rightarrow> handler \<Rightarrow> path \<Rightarrow> pyval \<Rightarrow> (world \<Rightarrow> res) \<Rightarrow> world \<Rightarrow> res" where
  "modify_task rt h p c child w =
     (case resolve rt (macro_variables w) c [TInt] of
        Inl e \<Rightarrow> Raised e w
      | Inr resolved_code \<Rightarrow>
          seq [add_capability p EV_KEY resolved_code,
               keycode_pause p,
               call_handler h (EV_KEY, resolved_code, PInt 1),
               keycode_pause p,
               child,
               keycode_pause p,
               call_handler h (EV_KEY, resolved_code, PInt 0),
               keycode_pause p] w)"

text \<open>\<^verbatim>\<open>add_key\<close>\<close>

definition key_task :: "handler \<Rightarrow> path \<Rightarrow> pyval \<Rightarrow> world \<Rightarrow> res" where
  "key_task h p c =
     seq [call_handler h (EV_KEY, c, PInt 1),
          keycode_pause p,
          call_handler h (EV_KEY, c, PInt 0),
          keycode_pause p]"

text \<open>\<^verbatim>\<open>range(n)\<close> of \<^verbatim>\<open>add_repeat\<close>: the number of iterations, or \<^verbatim>\<open>TypeError\<close>.\<close>

fun py_range :: "pyval \<Rightarrow> exc + nat" where
  "py_range (PInt k) = Inr (nat k)"
| "py_range _ = Inl TypeError"

text \<open>\<^verbatim>\<open>add_mouse\<close>: \<^verbatim>\<open>while self.is_holding(): handler(...); await self._keycode_pause()\<close>\<close>

fun mouse_loop :: "nat \<Rightarrow> handler \<Rightarrow> path \<Rightarrow> int \<Rightarrow> pyval \<Rightarrow> world \<Rightarrow> res" where
  "mouse_loop 0 h p c v w = Hang"
| "mouse_loop (Suc n) h p c v w =
     (if is_holding (self_at p w)
      then andthen (seq [call_handler h (EV_REL, PInt c, v), keycode_pause p])
                   (\<lambda>w'. mouse_loop n h p c v w') w
      else Done w)"

text \<open>
  \<^verbatim>\<open>value * _resolve(speed, [int])\<close>: the builder has checked \<^verbatim>\<open>speed\<close> against \<^verbatim>\<open>[int]\<close>, so
  the resolved value is an integer or the resolution has raised.
\<close>

definition mouse_task ::
  "nat \<Rightarrow> runtime \<Rightarrow> handler \<Rightarrow> path \<Rightarrow> int \<Rightarrow> int \<Rightarrow> pyval \<Rightarrow> world \<Rightarrow> res" where
  "mouse_task n rt h p c v speed w =
     (case resolve rt (macro_variables w) speed [TInt] of
        Inl e \<Rightarrow> Raised e w
      | Inr (PInt s) \<Rightarrow> mouse_loop n h p c (PInt (v * s)) w
      | Inr _ \<Rightarrow> Raised TypeError w)"

text \<open>\<^verbatim>\<open>add_wheel\<close>\<close>

fun wheel_loop :: "nat \<Rightarrow> handler \<Rightarrow> path \<Rightarrow> int \<Rightarrow> int \<Rightarrow> pyval \<Rightarrow> world \<Rightarrow> res" where
  "wheel_loop 0 h p c v s w = Hang"
| "wheel_loop (Suc n) h p c v s w =
     (if is_holding (self_at p w)
      then andthen (seq [call_handler h (EV_REL, PInt c, PInt v), wheel_sleep s])
                   (\<lambda>w'. wheel_loop n h p c v s w') w
      else Done w)"

definition wheel_task ::
  "nat \<Rightarrow> runtime \<Rightarrow> handler \<Rightarrow> path \<Rightarrow> int \<Rightarrow> int \<Rightarrow> pyval \<Rightarrow> world \<Rightarrow> res" where
  "wheel_task n rt h p c v speed w =
     (case resolve rt (macro_variables w) speed [TInt] of
        Inl e \<Rightarrow> Raised e w
      | Inr resolved_speed \<Rightarrow> wheel_loop n h p c v resolved_speed w)"

text \<open>\<^verbatim>\<open>add_wait\<close>\<close>

definition wait_task :: "runtime \<Rightarrow> pyval \<Rightarrow> world \<Rightarrow> res" where
  "wait_task rt time w =
     (case resolve rt (macro_variables w) time [TInt, TFloat] of
        Inl e \<Rightarrow> Raised e w
      | Inr t \<Rightarrow> (case div_1000 t of Some e \<Rightarrow> Raised e w | None \<Rightarrow> suspend w))"

text \<open>
  \<^verbatim>\<open>add_set\<close>: \<^verbatim>\<open>resolved_value\<close> is computed and written to the debug log; the assignment
  \<^verbatim>\<open>macro_variables[variable] = value\<close> stores \<^verbatim>\<open>value\<close>.
\<close>

definition set_task :: "runtime \<Rightarrow> string \<Rightarrow> pyval \<Rightarrow> world \<Rightarrow> res" where
  "set_task rt variable val w =
     (case resolve rt (macro_variables w) val [] of
        Inl e \<Rightarrow> Raised e w
      | Inr resolved_value \<Rightarrow>
          Done (w\<lparr>macro_variables := (macro_variables w)(variable \<mapsto> val)\<rparr>))"

text \<open>\<^verbatim>\<open>add_ifeq\<close>\<close>

definition ifeq_task ::
  "pyval \<Rightarrow> pyval \<Rightarrow> nat option \<Rightarrow> nat option \<Rightarrow> (nat \<Rightarrow> world \<Rightarrow> res) \<Rightarrow> world \<Rightarrow> res" where
  "ifeq_task variable val thn els child w =
     (let set_value = store_get (macro_variables w) variable
      in if py_eq set_value val then run_branch thn child w
         else run_branch els child w)"

text \<open>\<^verbatim>\<open>add_if_eq\<close>\<close>

definition if_eq_task ::
  "runtime \<Rightarrow> pyval \<Rightarrow> pyval \<Rightarrow> nat option \<Rightarrow> nat option \<Rightarrow> (nat \<Rightarrow> world \<Rightarrow> res) \<Rightarrow>
   world \<Rightarrow> res" where
  "if_eq_task rt value_1 value_2 thn els child w =
     (case resolve rt (macro_variables w) value_1 [] of
        Inl e \<Rightarrow> Raised e w
      | Inr resolved_value_1 \<Rightarrow>
          (case resolve rt (macro_variables w) value_2 [] of
             Inl e \<Rightarrow> Raised e w
           | Inr resolved_value_2 \<Rightarrow>
               if py_eq resolved_value_1 resolved_value_2 then run_branch thn child w
               else run_branch els child w))"

text \<open>\<^verbatim>\<open>add_if_tap\<close>: the inner coroutine \<^verbatim>\<open>wait\<close>, run under \<^verbatim>\<open>asyncio.wait_for\<close>.\<close>

definition tap_wait :: "path \<Rightarrow> world \<Rightarrow> res" where
  "tap_wait p w =
     (if is_holding (self_at p w) then event_wait True trigger_release_event p w
      else andthen (event_wait True trigger_press_event p)
                   (event_wait True trigger_release_event p) w)"

definition if_tap_task ::
  "runtime \<Rightarrow> path \<Rightarrow> nat option \<Rightarrow> nat option \<Rightarrow> pyval \<Rightarrow> (nat \<Rightarrow> world \<Rightarrow> res) \<Rightarrow>
   world \<Rightarrow> res" where
  "if_tap_task rt p thn els timeout child w =
     (case resolve rt (macro_variables w) timeout [TInt, TFloat] of
        Inl e \<Rightarrow> Raised e w
      | Inr t \<Rightarrow>
          (case div_1000 t of
             Some e \<Rightarrow> Raised e w
           | None \<Rightarrow> catch_timeout (andthen (tap_wait p) (run_branch thn child))
                                    (run_branch els child) w))"

text \<open>
  \<^verbatim>\<open>add_if_single\<close>: \<^verbatim>\<open>event_filter\<close> reads the type and the code of the newest event, which
  raises \<^verbatim>\<open>AttributeError\<close> while no event has arrived.
\<close>

definition event_filter :: "int \<times> int \<Rightarrow> macro_fields \<Rightarrow> exc + bool" where
  "event_filter triggering_event f =
     (case newest_event f of
        None \<Rightarrow> Inl AttributeError
      | Some ev \<Rightarrow>
          Inr (ev = triggering_event
               \<or> newest_action f = Some PRESS \<or> newest_action f = Some PRESS_NEGATIVE))"

text \<open>\<^verbatim>\<open>_wait_for_event\<close> with that filter.\<close>

fun wait_for_event :: "nat \<Rightarrow> bool \<Rightarrow> path \<Rightarrow> int \<times> int \<Rightarrow> world \<Rightarrow> res" where
  "wait_for_event 0 timed p trig w = Hang"
| "wait_for_event (Suc n) timed p trig w =
     (case event_wait timed new_event_arrived p w of
        Done w1 \<Rightarrow>
          (let w2 = upd_self p (\<lambda>f. f\<lparr>new_event_arrived := False\<rparr>) w1
           in case event_filter trig (self_at p w2) of
                Inl e \<Rightarrow> Raised e w2
              | Inr ok \<Rightarrow> if ok then Done w2 else wait_for_event n timed p trig w2)
      | r \<Rightarrow> r)"

definition if_single_task ::
  "nat \<Rightarrow> runtime \<Rightarrow> path \<Rightarrow> nat option \<Rightarrow> nat option \<Rightarrow> pyval \<Rightarrow>
   (nat \<Rightarrow> world \<Rightarrow> res) \<Rightarrow> world \<Rightarrow> res" where
  "if_single_task n rt p thn els timeout child w =
     (case newest_event (self_at p w) of
        None \<Rightarrow> Raised AttributeError w
      | Some triggering_event \<Rightarrow>
          (case resolve rt (macro_variables w) timeout [TInt, TFloat, TNone] of
             Inl e \<Rightarrow> Raised e w
           | Inr resolved_timeout \<Rightarrow>
               (case (if resolved_timeout \<noteq> PNone
                      then (case div_1000 resolved_timeout of
                              Some e \<Rightarrow> Raised e w
                            | None \<Rightarrow> wait_for_event n True p triggering_event w)
                      else wait_for_event n False p triggering_event w) of
                  Done w1 \<Rightarrow>
                    if newest_event (self_at p w1) = Some triggering_event
                    then catch_timeout (run_branch thn child) (run_branch els child) w1
                    else run_branch els child w1
                | Raised e w1 \<Rightarrow>
                    if e = TimeoutError then run_branch els child w1 else Raised e w1
                | Hang \<Rightarrow> Hang)))"

subsection \<open>\<^verbatim>\<open>Macro.run\<close>\<close>

text \<open>
  The tasks that run a child macro call \<^verbatim>\<open>macro.run(handler)\<close>; in the definitions below
  \<open>r q\<close> is that call for the macro at path \<open>q\<close>. The two loops around such a call:
  \<^verbatim>\<open>while self.is_holding(): await macro.run(handler)\<close> of \<^verbatim>\<open>add_hold\<close>, which may spin
  forever and so uses up fuel, and \<^verbatim>\<open>for _ in range(n): await macro.run(handler)\<close> of
  \<^verbatim>\<open>add_repeat\<close>.
\<close>

fun hold_loop :: "nat \<Rightarrow> (path \<Rightarrow> world \<Rightarrow> res) \<Rightarrow> path \<Rightarrow> nat \<Rightarrow> world \<Rightarrow> res" where
  "hold_loop 0 r p i w = Hang"
| "hold_loop (Suc n) r p i w =
     (if is_holding (self_at p w)
      then andthen (on_child p i r) (\<lambda>w'. hold_loop n r p i w') w
      else Done w)"

fun repeat_loop :: "(path \<Rightarrow> world \<Rightarrow> res) \<Rightarrow> path \<Rightarrow> nat \<Rightarrow> nat \<Rightarrow> world \<Rightarrow> res" where
  "repeat_loop r p i 0 w = Done w"
| "repeat_loop r p i (Suc k) w =
     andthen (on_child p i r) (\<lambda>w'. repeat_loop r p i k w') w"

definition repeat_task ::
  "runtime \<Rightarrow> (path \<Rightarrow> world \<Rightarrow> res) \<Rightarrow> path \<Rightarrow> pyval \<Rightarrow> nat \<Rightarrow> world \<Rightarrow> res" where
  "repeat_task rt r p repeats i w =
     (case resolve rt (macro_variables w) repeats [TInt] of
        Inl e \<Rightarrow> Raised e w
      | Inr n \<Rightarrow>
          (case py_range n of
             Inl e \<Rightarrow> Raised e w
           | Inr k \<Rightarrow> repeat_loop r p i k w))"

text \<open>Calling a task: one equation for each closure.\<close>

fun task ::
  "nat \<Rightarrow> (path \<Rightarrow> world \<Rightarrow> res) \<Rightarrow> runtime \<Rightarrow> handler \<Rightarrow> path \<Rightarrow> step \<Rightarrow> world \<Rightarrow> res" where
  "task n r rt h p HoldWait w = event_wait False trigger_release_event p w"
| "task n r rt h p (HoldKey c) w = hold_key_task rt h p c w"
| "task n r rt h p (HoldMacro i) w = hold_loop n r p i w"
| "task n r rt h p (Modify c i) w = modify_task rt h p c (on_child p i r) w"
| "task n r rt h p (Repeat repeats i) w = repeat_task rt r p repeats i w"
| "task n r rt h p (Key c) w = key_task h p c w"
| "task n r rt h p (Event t c v) w = call_handler h (t, c, v) w"
| "task n r rt h p KeycodePause w = keycode_pause p w"
| "task n r rt h p (Mouse c v speed) w = mouse_task n rt h p c v speed w"
| "task n r rt h p (Wheel c v speed) w = wheel_task n rt h p c v speed w"
| "task n r rt h p (Wait time) w = wait_task rt time w"
| "task n r rt h p (SetVar variable val) w = set_task rt variable val w"
| "task n r rt h p (Ifeq variable val thn els) w =
     ifeq_task variable val thn els (\<lambda>i. on_child p i r) w"
| "task n r rt h p (IfEq value_1 value_2 thn els) w =
     if_eq_task rt value_1 value_2 thn els (\<lambda>i. on_child p i r) w"
| "task n r rt h p (IfTap thn els timeout) w =
     if_tap_task rt p thn els timeout (\<lambda>i. on_child p i r) w"
| "task n r rt h p (IfSingle thn els timeout) w =
     if_single_task n rt p thn els timeout (\<lambda>i. on_child p i r) w"

text \<open>
  The \<^verbatim>\<open>try\<close> statement of \<^verbatim>\<open>run\<close> stands inside the loop over the tasks and its handler
  leaves the loop, so the loop ends at the first task that raises: \<open>run_tasks\<close> is the loop
  up to that task, and \<open>run_body\<close> holds the handler, which catches an \<^verbatim>\<open>Exception\<close>, writes
  the log line and goes on to \<^verbatim>\<open>self.running = False\<close>.
\<close>

fun run_tasks ::
  "nat \<Rightarrow> (path \<Rightarrow> world \<Rightarrow> res) \<Rightarrow> runtime \<Rightarrow> handler \<Rightarrow> path \<Rightarrow> step list \<Rightarrow> world \<Rightarrow> res"
  where
  "run_tasks n r rt h p [] w = Done w"
| "run_tasks n r rt h p (t # ts) w =
     andthen (task n r rt h p t) (\<lambda>w'. run_tasks n r rt h p ts w') w"

definition run_body ::
  "nat \<Rightarrow> (path \<Rightarrow> world \<Rightarrow> res) \<Rightarrow> runtime \<Rightarrow> handler \<Rightarrow> path \<Rightarrow> world \<Rightarrow> res" where
  "run_body n r rt h p w =
     (if \<not> callable h then Raised ValueError w
      else if running (self_at p w)
      then Done (w\<lparr>logged := logged w @ [AlreadyRunning (code (self_at p w))]\<rparr>)
      else
        let w1 = upd_self p (\<lambda>f. f\<lparr>new_event_arrived := False\<rparr>) w
        in case macro_context (self_at p w1) of
             None \<Rightarrow> Raised AttributeError w1
           | Some ms \<Rightarrow>
               let w2 = upd_self p (\<lambda>f. f\<lparr>keystroke_sleep_ms := ms\<rparr>) w1;
                   w3 = upd_self p (\<lambda>f. f\<lparr>running := True\<rparr>) w2
               in case run_tasks n r rt h p (tasks (self_at p w3)) w3 of
                    Done w4 \<Rightarrow> Done (upd_self p (\<lambda>f. f\<lparr>running := False\<rparr>) w4)
                  | Raised e w4 \<Rightarrow>
                      if is_Exception e
                      then Done (upd_self p (\<lambda>f. f\<lparr>running := False\<rparr>)
                                   (w4\<lparr>logged := logged w4 @ [MacroFailed (code (self_at p w4)) e]\<rparr>))
                      else Raised e w4
                  | Hang \<Rightarrow> Hang)"

text \<open>
  \<^verbatim>\<open>Macro.run\<close> on the macro at path \<open>p\<close>. The fuel bounds the depth of nested runs and the
  turns of the loops that may not terminate.
\<close>

fun run :: "nat \<Rightarrow> runtime \<Rightarrow> handler \<Rightarrow> path \<Rightarrow> world \<Rightarrow> res" where
  "run 0 rt h p w = Hang"
| "run (Suc n) rt h p w = run_body n (\<lambda>q w'. run n rt h q w') rt h p w"


text \<open>
  The state in which \<^verbatim>\<open>run\<close> enters its loop: the event signal cleared, the keystroke pause
  read from the configuration, \<^verbatim>\<open>running\<close> set.
\<close>

definition started :: "path \<Rightarrow> pyval \<Rightarrow> world \<Rightarrow> world" where
  "started p ms w =
     upd_self p (\<lambda>f. f\<lparr>running := True\<rparr>)
       (upd_self p (\<lambda>f. f\<lparr>keystroke_sleep_ms := ms\<rparr>)
         (upd_self p (\<lambda>f. f\<lparr>new_event_arrived := False\<rparr>) w))"

section \<open>Building a macro\<close>

text \<open>
  The \<^verbatim>\<open>add_...\<close> methods. Each takes \<^verbatim>\<open>self\<close> last and returns the macro after the call, or
  the exception the call raises; every method raises before it changes \<^verbatim>\<open>self\<close>. An
  argument in a position that accepts a macro is \<open>Mac m\<close> for a \<^verbatim>\<open>Macro\<close> object and \<open>Val v\<close>
  for anything else; \<open>arg_val\<close> is the argument as \<^verbatim>\<open>_type_check\<close> sees it. The parameters
  that the methods document as \<^verbatim>\<open>Macro\<close> are macros, and the branches \<^verbatim>\<open>then\<close> and \<^verbatim>\<open>else_\<close>
  are a macro or \<^verbatim>\<open>None\<close>.
\<close>

datatype arg = Mac macro | Val pyval

fun arg_val :: "arg \<Rightarrow> pyval" where
  "arg_val (Mac m) = PMacro (code (attrs m))"
| "arg_val (Val v) = v"

fun branch_val :: "macro option \<Rightarrow> pyval" where
  "branch_val None = PNone"
| "branch_val (Some m) = PMacro (code (attrs m))"

definition bindE :: "exc + 'a \<Rightarrow> ('a \<Rightarrow> exc + 'b) \<Rightarrow> exc + 'b" where
  "bindE x k = (case x of Inl e \<Rightarrow> Inl e | Inr a \<Rightarrow> k a)"

definition append_task :: "step \<Rightarrow> macro \<Rightarrow> macro" where
  "append_task t self = map_fields (\<lambda>f. f\<lparr>tasks := tasks f @ [t]\<rparr>) self"

definition append_child :: "macro \<Rightarrow> macro \<Rightarrow> macro" where
  "append_child m self = Macro (attrs self) (child_macros self @ [m])"

text \<open>\<^verbatim>\<open>if isinstance(branch, Macro): self.child_macros.append(branch)\<close>\<close>

fun append_branch :: "macro option \<Rightarrow> macro \<Rightarrow> macro" where
  "append_branch None self = self"
| "append_branch (Some m) self = append_child m self"

text \<open>The position a branch has in \<^verbatim>\<open>child_macros\<close> once it is appended as the \<open>k\<close>-th next child.\<close>

fun branch_ref :: "macro option \<Rightarrow> nat \<Rightarrow> nat option" where
  "branch_ref None k = None"
| "branch_ref (Some m) k = Some k"

definition add_cap :: "pyval \<Rightarrow> pyval \<Rightarrow> macro \<Rightarrow> exc + macro" where
  "add_cap t c self =
     bindE (caps_add t c (capabilities (attrs self)))
       (\<lambda>cp. Inr (map_fields (\<lambda>f. f\<lparr>capabilities := cp\<rparr>) self))"

definition add_mouse_capabilities :: "macro \<Rightarrow> exc + macro" where
  "add_mouse_capabilities self =
     bindE (add_cap EV_REL (PInt REL_X) self) (\<lambda>self.
     bindE (add_cap EV_REL (PInt REL_Y) self) (\<lambda>self.
     bindE (add_cap EV_REL (PInt REL_WHEEL) self) (\<lambda>self.
     add_cap EV_REL (PInt REL_HWHEEL) self)))"

definition add_hold :: "runtime \<Rightarrow> arg \<Rightarrow> macro \<Rightarrow> exc + macro" where
  "add_hold rt a self =
     bindE (type_check rt (arg_val a) [TMacro, TStr, TNone]) (\<lambda>_.
       case a of
         Mac m \<Rightarrow>
           Inr (append_child m (append_task (HoldMacro (length (child_macros self))) self))
       | Val v \<Rightarrow>
           if v = PNone then Inr (append_task HoldWait self)
           else bindE (type_check_keyname rt v) (\<lambda>c.
                bindE (add_cap EV_KEY c self) (\<lambda>self.
                Inr (append_task (HoldKey c) self))))"

definition add_modify :: "runtime \<Rightarrow> pyval \<Rightarrow> macro \<Rightarrow> macro \<Rightarrow> exc + macro" where
  "add_modify rt modifier m self =
     bindE (type_check rt (PMacro (code (attrs m))) [TMacro]) (\<lambda>_.
       case system_mapping rt (py_str rt modifier) of
         None \<Rightarrow> Inl KeyError
       | Some c \<Rightarrow>
           bindE (add_cap EV_KEY (PInt c) self) (\<lambda>self.
           Inr (append_task (Modify (PInt c) (length (child_macros self)))
                  (append_child m self))))"

definition add_repeat :: "runtime \<Rightarrow> pyval \<Rightarrow> macro \<Rightarrow> macro \<Rightarrow> exc + macro" where
  "add_repeat rt repeats m self =
     bindE (type_check rt repeats [TInt]) (\<lambda>repeats.
     bindE (type_check rt (PMacro (code (attrs m))) [TMacro]) (\<lambda>_.
     Inr (append_child m (append_task (Repeat repeats (length (child_macros self))) self))))"

text \<open>\<^verbatim>\<open>system_mapping.get(symbol)\<close> as a value: \<^verbatim>\<open>None\<close> for an unknown symbol.\<close>

definition mapping_get :: "runtime \<Rightarrow> string \<Rightarrow> pyval" where
  "mapping_get rt symbol = (case system_mapping rt symbol of None \<Rightarrow> PNone | Some c \<Rightarrow> PInt c)"

definition add_key :: "runtime \<Rightarrow> pyval \<Rightarrow> macro \<Rightarrow> exc + macro" where
  "add_key rt symbol self =
     bindE (type_check_keyname rt symbol) (\<lambda>_.
       let c = mapping_get rt (py_str rt symbol)
       in bindE (add_cap EV_KEY c self) (\<lambda>self.
          Inr (append_task (Key c) self)))"

text \<open>\<^verbatim>\<open>str.upper\<close> and \<^verbatim>\<open>str.lower\<close> on the ASCII letters.\<close>

definition upper_char :: "char \<Rightarrow> char" where
  "upper_char c =
     (let n = (of_char c :: nat) in if 97 \<le> n \<and> n \<le> 122 then char_of (n - 32) else c)"

definition lower_char :: "char \<Rightarrow> char" where
  "lower_char c =
     (let n = (of_char c :: nat) in if 65 \<le> n \<and> n \<le> 90 then char_of (n + 32) else c)"

text \<open>\<^verbatim>\<open>if isinstance(x, str): x = ecodes[x.upper()]\<close>\<close>

definition ecode :: "runtime \<Rightarrow> pyval \<Rightarrow> exc + pyval" where
  "ecode rt x =
     (case x of
        PStr s \<Rightarrow> (case ecodes rt (map upper_char s) of None \<Rightarrow> Inl KeyError | Some c \<Rightarrow> Inr (PInt c))
      | _ \<Rightarrow> Inr x)"

definition add_event :: "runtime \<Rightarrow> pyval \<Rightarrow> pyval \<Rightarrow> pyval \<Rightarrow> macro \<Rightarrow> exc + macro" where
  "add_event rt type0 code0 value0 self =
     bindE (type_check rt type0 [TInt, TStr]) (\<lambda>type1.
     bindE (type_check rt code0 [TInt, TStr]) (\<lambda>code1.
     bindE (type_check rt value0 [TInt, TStr]) (\<lambda>val.
     bindE (ecode rt type1) (\<lambda>ty.
     bindE (ecode rt code1) (\<lambda>c.
       let self1 = (if capabilities (attrs self) ty = None
                    then map_fields (\<lambda>f. f\<lparr>capabilities := (capabilities f)(ty \<mapsto> {})\<rparr>) self
                    else self)
       in bindE (if py_eq ty EV_REL
                 then bindE (add_cap EV_REL (PInt REL_X) self1) (\<lambda>self.
                      bindE (add_cap EV_REL (PInt REL_Y) self) (\<lambda>self.
                      add_cap EV_REL (PInt REL_WHEEL) self))
                 else Inr self1) (\<lambda>self.
          bindE (add_cap ty c self) (\<lambda>self.
          Inr (append_task KeycodePause (append_task (Event ty c val) self)))))))))"

text \<open>The direction tables of \<^verbatim>\<open>add_mouse\<close> and \<^verbatim>\<open>add_wheel\<close>, indexed with \<^verbatim>\<open>direction.lower()\<close>.\<close>

definition mouse_table :: "string \<rightharpoonup> int \<times> int" where
  "mouse_table =
     [''up'' \<mapsto> (REL_Y, -1), ''down'' \<mapsto> (REL_Y, 1),
      ''left'' \<mapsto> (REL_X, -1), ''right'' \<mapsto> (REL_X, 1)]"

definition wheel_table :: "string \<rightharpoonup> int \<times> int" where
  "wheel_table =
     [''up'' \<mapsto> (REL_WHEEL, 1), ''down'' \<mapsto> (REL_WHEEL, -1),
      ''left'' \<mapsto> (REL_HWHEEL, 1), ''right'' \<mapsto> (REL_HWHEEL, -1)]"

definition direction_lookup :: "(string \<rightharpoonup> int \<times> int) \<Rightarrow> pyval \<Rightarrow> exc + int \<times> int" where
  "direction_lookup table direction =
     (case direction of
        PStr s \<Rightarrow> (case table (map lower_char s) of None \<Rightarrow> Inl KeyError | Some cv \<Rightarrow> Inr cv)
      | _ \<Rightarrow> Inl AttributeError)"

definition add_mouse :: "runtime \<Rightarrow> pyval \<Rightarrow> pyval \<Rightarrow> macro \<Rightarrow> exc + macro" where
  "add_mouse rt direction speed self =
     bindE (type_check rt direction [TStr]) (\<lambda>_.
     bindE (type_check rt speed [TInt]) (\<lambda>speed.
     bindE (direction_lookup mouse_table direction) (\<lambda>(c, v).
     bindE (add_mouse_capabilities self) (\<lambda>self.
     Inr (append_task (Mouse c v speed) self)))))"

definition add_wheel :: "runtime \<Rightarrow> pyval \<Rightarrow> pyval \<Rightarrow> macro \<Rightarrow> exc + macro" where
  "add_wheel rt direction speed self =
     bindE (type_check rt direction [TStr]) (\<lambda>_.
     bindE (type_check rt speed [TInt]) (\<lambda>speed.
     bindE (direction_lookup wheel_table direction) (\<lambda>(c, v).
     bindE (add_mouse_capabilities self) (\<lambda>self.
     Inr (append_task (Wheel c v speed) self)))))"

definition add_wait :: "runtime \<Rightarrow> pyval \<Rightarrow> macro \<Rightarrow> exc + macro" where
  "add_wait rt time self =
     bindE (type_check rt time [TInt, TFloat]) (\<lambda>time.
     Inr (append_task (Wait time) self))"

definition add_set :: "pyval \<Rightarrow> pyval \<Rightarrow> macro \<Rightarrow> exc + macro" where
  "add_set variable val self =
     bindE (type_check_variablename variable) (\<lambda>name.
     Inr (append_task (SetVar name val) self))"

text \<open>
  The branches of the conditionals: \<^verbatim>\<open>then\<close> is appended to \<^verbatim>\<open>child_macros\<close> first, \<^verbatim>\<open>else_\<close>
  after it, each only when it is a macro.
\<close>

definition then_ref :: "macro option \<Rightarrow> macro \<Rightarrow> nat option" where
  "then_ref thn self = branch_ref thn (length (child_macros self))"

definition else_ref :: "macro option \<Rightarrow> macro option \<Rightarrow> macro \<Rightarrow> nat option" where
  "else_ref thn els self =
     branch_ref els (length (child_macros (append_branch thn self)))"

definition add_ifeq ::
  "runtime \<Rightarrow> pyval \<Rightarrow> pyval \<Rightarrow> macro option \<Rightarrow> macro option \<Rightarrow> macro \<Rightarrow> exc + macro" where
  "add_ifeq rt variable val thn els self =
     bindE (type_check rt (branch_val thn) [TMacro, TNone]) (\<lambda>_.
     bindE (type_check rt (branch_val els) [TMacro, TNone]) (\<lambda>_.
     Inr (append_task (Ifeq variable val (then_ref thn self) (else_ref thn els self))
            (append_branch els (append_branch thn self)))))"

definition add_if_eq ::
  "runtime \<Rightarrow> pyval \<Rightarrow> pyval \<Rightarrow> macro option \<Rightarrow> macro option \<Rightarrow> macro \<Rightarrow> exc + macro" where
  "add_if_eq rt value_1 value_2 thn els self =
     bindE (type_check rt (branch_val thn) [TMacro, TNone]) (\<lambda>_.
     bindE (type_check rt (branch_val els) [TMacro, TNone]) (\<lambda>_.
     Inr (append_task (IfEq value_1 value_2 (then_ref thn self) (else_ref thn els self))
            (append_branch els (append_branch thn self)))))"

definition add_if_tap ::
  "runtime \<Rightarrow> macro option \<Rightarrow> macro option \<Rightarrow> pyval \<Rightarrow> macro \<Rightarrow> exc + macro" where
  "add_if_tap rt thn els timeout self =
     bindE (type_check rt (branch_val thn) [TMacro, TNone]) (\<lambda>_.
     bindE (type_check rt (branch_val els) [TMacro, TNone]) (\<lambda>_.
     bindE (type_check rt timeout [TInt, TFloat]) (\<lambda>timeout.
     Inr (append_task (IfTap (then_ref thn self) (else_ref thn els self) timeout)
            (append_branch els (append_branch thn self))))))"

definition add_if_single ::
  "runtime \<Rightarrow> macro option \<Rightarrow> macro option \<Rightarrow> pyval \<Rightarrow> macro \<Rightarrow> exc + macro" where
  "add_if_single rt thn els timeout self =
     bindE (type_check rt (branch_val thn) [TMacro, TNone]) (\<lambda>_.
     bindE (type_check rt (branch_val els) [TMacro, TNone]) (\<lambda>_.
     Inr (append_task (IfSingle (then_ref thn self) (else_ref thn els self) timeout)
            (append_branch els (append_branch thn self)))))"


section \<open>Example macros\<close>

text \<open>
  A small instance of the environment, used to run the model on concrete macros: a symbol
  table with three keys, the kernel names the examples use, \<^verbatim>\<open>int\<close> on strings of decimal
  digits, a handler that never raises, and a keystroke pause of 10 ms.
\<close>

fun digit_val :: "char \<Rightarrow> nat option" where
  "digit_val c =
     (let n = (of_char c :: nat) in if 48 \<le> n \<and> n \<le> 57 then Some (n - 48) else None)"

fun parse_nat :: "nat \<Rightarrow> string \<Rightarrow> nat option" where
  "parse_nat acc [] = Some acc"
| "parse_nat acc (c # cs) =
     (case digit_val c of None \<Rightarrow> None | Some d \<Rightarrow> parse_nat (10 * acc + d) cs)"

definition example_int_of_str :: "string \<rightharpoonup> int" where
  "example_int_of_str s = (if s = [] then None else map_option int (parse_nat 0 s))"

definition example_rt :: runtime where
  "example_rt =
     \<lparr> system_mapping = [''KEY_A'' \<mapsto> 30, ''KEY_B'' \<mapsto> 48, ''KEY_LEFTSHIFT'' \<mapsto> 42],
       ecodes = [''EV_KEY'' \<mapsto> 1, ''EV_REL'' \<mapsto> 2, ''REL_X'' \<mapsto> 0, ''REL_Y'' \<mapsto> 1,
                 ''REL_HWHEEL'' \<mapsto> 6, ''REL_WHEEL'' \<mapsto> 8, ''KEY_A'' \<mapsto> 30],
       int_of_str = example_int_of_str,
       float_of_str = (\<lambda>s. None),
       float_of_int = (\<lambda>i. Fin (of_int i)),
       str_of_int = (\<lambda>i. ''0''),
       str_of_float = (\<lambda>f. ''0.0'') \<rparr>"

definition example_handler :: handler where
  "example_handler = \<lparr> callable = True, raises = (\<lambda>_ _. None) \<rparr>"

definition fresh :: "string \<Rightarrow> macro" where
  "fresh c = Macro_init (Some c) (Some (PInt 10))"

definition start :: "macro \<Rightarrow> store \<Rightarrow> tick list \<Rightarrow> world" where
  "start m vars ticks =
     \<lparr> root = m, macro_variables = vars, emitted = [], logged = [], schedule = ticks \<rparr>"

text \<open>What a builder call and a run have produced.\<close>

fun build_error :: "exc + macro \<Rightarrow> exc option" where
  "build_error (Inl e) = Some e"
| "build_error (Inr m) = None"

fun the_macro :: "exc + macro \<Rightarrow> macro" where
  "the_macro (Inr m) = m"
| "the_macro (Inl e) = Macro_init None None"

fun events_of :: "res \<Rightarrow> event list" where
  "events_of (Done w) = emitted w"
| "events_of (Raised e w) = emitted w"
| "events_of Hang = []"

fun raised_of :: "res \<Rightarrow> exc option" where
  "raised_of (Raised e w) = Some e"
| "raised_of _ = None"

fun returned :: "res \<Rightarrow> bool" where
  "returned (Done w) = True"
| "returned _ = False"

fun log_of :: "res \<Rightarrow> log_entry list" where
  "log_of (Done w) = logged w"
| "log_of (Raised e w) = logged w"
| "log_of Hang = []"

fun variable_of :: "res \<Rightarrow> string \<Rightarrow> pyval option" where
  "variable_of (Done w) name = macro_variables w name"
| "variable_of (Raised e w) name = macro_variables w name"
| "variable_of Hang name = None"

fun running_of :: "res \<Rightarrow> bool option" where
  "running_of (Done w) = Some (running (self_at [] w))"
| "running_of (Raised e w) = Some (running (self_at [] w))"
| "running_of Hang = None"

fun capabilities_of :: "res \<Rightarrow> caps" where
  "capabilities_of (Done w) = get_capabilities (root w)"
| "capabilities_of (Raised e w) = get_capabilities (root w)"
| "capabilities_of Hang = Map.empty"

definition k_a :: macro where
  "k_a = the_macro (add_key example_rt (PStr ''KEY_A'') (fresh ''k(KEY_A)''))"

definition k_b :: macro where
  "k_b = the_macro (add_key example_rt (PStr ''KEY_B'') (fresh ''k(KEY_B)''))"

definition hold_a :: macro where
  "hold_a = the_macro (add_hold example_rt (Val (PStr ''KEY_A'')) (fresh ''h(KEY_A)''))"

definition hold_foo :: macro where
  "hold_foo = the_macro (add_hold example_rt (Val (PVar ''foo'')) (fresh ''h($foo)''))"

definition repeat_29 :: macro where
  "repeat_29 =
     the_macro (add_repeat example_rt (PFloat (Fin (29 / 10))) k_a (fresh ''r(2.9, k(KEY_A))''))"

definition wheel_0 :: macro where
  "wheel_0 = the_macro (add_wheel example_rt (PStr ''up'') (PInt 0) (fresh ''wheel(up, 0)''))"

definition wheel_0_then_key :: macro where
  "wheel_0_then_key =
     the_macro (add_key example_rt (PStr ''KEY_A'')
       (the_macro (add_wheel example_rt (PStr ''up'') (PInt 0) (fresh ''wheel(up, 0).k(KEY_A)''))))"

definition event_rel :: macro where
  "event_rel =
     the_macro (add_event example_rt (PStr ''EV_REL'') (PStr ''REL_X'') (PInt 1)
                  (fresh ''e(EV_REL, REL_X, 1)''))"

definition mouse_up :: macro where
  "mouse_up = the_macro (add_mouse example_rt (PStr ''up'') (PInt 4) (fresh ''mouse(up, 4)''))"

definition set_a_b :: macro where
  "set_a_b = the_macro (add_set (PStr ''a'') (PVar ''b'') (fresh ''set(a, $b)''))"

definition set_then_if_eq :: "pyval \<Rightarrow> macro" where
  "set_then_if_eq v =
     the_macro (add_if_eq example_rt (PVar ''x'') v (Some k_a) (Some k_b)
       (the_macro (add_set (PStr ''x'') v (fresh ''set(x, v).if_eq($x, v, k(KEY_A), k(KEY_B))''))))"

definition ifeq_a_b :: macro where
  "ifeq_a_b =
     the_macro (add_ifeq example_rt (PStr ''a'') (PVar ''b'') (Some k_a) (Some k_b)
                  (fresh ''ifeq(a, $b, k(KEY_A), k(KEY_B))''))"

definition ifeq_a_5 :: macro where
  "ifeq_a_5 =
     the_macro (add_ifeq example_rt (PStr ''a'') (PInt 5) (Some k_a) (Some k_b)
                  (fresh ''ifeq(a, 5, k(KEY_A), k(KEY_B))''))"

definition if_eq_a_b :: macro where
  "if_eq_a_b =
     the_macro (add_if_eq example_rt (PVar ''a'') (PVar ''b'') (Some k_a) (Some k_b)
                  (fresh ''if_eq($a, $b, k(KEY_A), k(KEY_B))''))"

definition modify_shift :: macro where
  "modify_shift =
     the_macro (add_modify example_rt (PStr ''KEY_LEFTSHIFT'') k_a
                  (fresh ''m(KEY_LEFTSHIFT, k(KEY_A))''))"


text \<open>The macro \<^verbatim>\<open>k(KEY_A)\<close> while a run of it is under way.\<close>

definition running_k_a :: macro where
  "running_k_a = map_fields (\<lambda>f. f\<lparr>running := True\<rparr>) k_a"

section \<open>Notions used in the statements\<close>

text \<open>
  The value of an operand: a variable reference stands for what the store holds under its
  name, anything else for itself.
\<close>

definition deref :: "store \<Rightarrow> pyval \<Rightarrow> pyval" where
  "deref vars v = (case v of PVar name \<Rightarrow> store_get vars (PStr name) | _ \<Rightarrow> v)"

text \<open>A literal of the macro language that equals itself: an integer, a string, a float but NaN.\<close>

fun literal :: "pyval \<Rightarrow> bool" where
  "literal (PInt i) = True"
| "literal (PStr s) = True"
| "literal (PFloat f) = (f \<noteq> NaN)"
| "literal _ = False"

text \<open>The macros among the two branches of a conditional, in the order they are appended.\<close>

fun branch_list :: "macro option \<Rightarrow> macro list" where
  "branch_list None = []"
| "branch_list (Some m) = [m]"

section \<open>Type checking: floats where an integer is expected\<close>

lemma trunc_abs: "\<bar>of_int (trunc q)\<bar> \<le> \<bar>q\<bar> \<and> \<bar>q - of_int (trunc q)\<bar> < 1"
proof (cases "0 \<le> q")
  case True
  have a: "of_int \<lfloor>q\<rfloor> \<le> q" by (rule of_int_floor_le)
  have b: "q < of_int \<lfloor>q\<rfloor> + 1" using floor_correct[of q] by simp
  have c: "(0::rat) \<le> of_int \<lfloor>q\<rfloor>" using True by simp
  have t: "trunc q = \<lfloor>q\<rfloor>" using True by (simp add: trunc_def)
  show ?thesis unfolding t using a b c True by linarith
next
  case False
  have a: "q \<le> of_int \<lceil>q\<rceil>" by (rule le_of_int_ceiling)
  have b: "of_int \<lceil>q\<rceil> < q + 1" using ceiling_correct[of q] by simp
  have "\<lceil>q\<rceil> \<le> 0" using False by (simp add: ceiling_le_iff)
  then have c: "of_int \<lceil>q\<rceil> \<le> (0::rat)" by simp
  have t: "trunc q = \<lceil>q\<rceil>" using False by (simp add: trunc_def)
  show ?thesis unfolding t using a b c False by linarith
qed

lemma type_check_macro: "type_check rt (PMacro c) [TMacro] = Inr (PMacro c)"
  by (simp add: type_check_def)

text \<open>
  Claim C10, as amended. For every finite float \<open>f\<close>, \<^verbatim>\<open>_type_check(f, [int])\<close> returns
  \<^verbatim>\<open>int(f)\<close> without error: the integer nearest to \<open>f\<close> between zero and \<open>f\<close>. So
  \<^verbatim>\<open>add_repeat\<close> accepts a finite float as the repeat count and compiles the truncated
  count into the step; for 2.9 the count is 2 and the step runs the child exactly twice.
\<close>

theorem type_check_float_truncates:
  "type_check rt (PFloat (Fin q)) [TInt] = Inr (PInt (trunc q))
   \<and> \<bar>of_int (trunc q)\<bar> \<le> \<bar>q\<bar> \<and> \<bar>q - of_int (trunc q)\<bar> < 1
   \<and> add_repeat rt (PFloat (Fin q)) m self =
       Inr (append_child m
             (append_task (Repeat (PInt (trunc q)) (length (child_macros self))) self))
   \<and> trunc (29 / 10) = 2
   \<and> task n r rt h p (Repeat (PInt 2) i) w = andthen (on_child p i r) (on_child p i r) w"
proof -
  have tc: "type_check rt (PFloat (Fin q)) [TInt] = Inr (PInt (trunc q))"
    by (simp add: type_check_def)
  have ar: "add_repeat rt (PFloat (Fin q)) m self =
       Inr (append_child m
             (append_task (Repeat (PInt (trunc q)) (length (child_macros self))) self))"
    by (simp add: add_repeat_def tc type_check_macro bindE_def)
  have t29: "trunc (29 / 10) = 2"
    by (simp add: trunc_def floor_eq_iff)
  have one: "repeat_loop r p i (Suc 0) = on_child p i r"
    by (rule ext) (simp add: andthen_def split: res.splits)
  have rp: "task n r rt h p (Repeat (PInt 2) i) w = andthen (on_child p i r) (on_child p i r) w"
    by (simp add: repeat_task_def resolve_def numeral_2_eq_2 one)
  from tc trunc_abs ar t29 rp show ?thesis by blast
qed

text \<open>
  Claim C10 fails as stated, for every float: \<^verbatim>\<open>int\<close> of a NaN raises \<^verbatim>\<open>ValueError\<close>, which
  \<^verbatim>\<open>_type_check\<close> catches and turns into its own \<^verbatim>\<open>TypeError\<close>, and \<^verbatim>\<open>int\<close> of an infinity
  raises \<^verbatim>\<open>OverflowError\<close>, which \<^verbatim>\<open>_type_check\<close> does not catch.
\<close>

theorem type_check_nan_rejected:
  "type_check example_rt (PFloat NaN) [TInt] = Inl TypeError
   \<and> type_check example_rt (PFloat PosInf) [TInt] = Inl OverflowError"
  by (simp add: type_check_def)

text \<open>The macro \<^verbatim>\<open>r(2.9, k(KEY_A))\<close> is built, and a run of it presses the key twice.\<close>

lemma repeat_29_runs_twice:
  "build_error (add_repeat example_rt (PFloat (Fin (29 / 10))) k_a (fresh ''r(2.9, k(KEY_A))''))
     = None
   \<and> tasks (attrs repeat_29) = [Repeat (PInt 2) 0]
   \<and> events_of (run 5 example_rt example_handler []
        (start repeat_29 Map.empty [Resume [], Resume [], Resume [], Resume []]))
      = [(EV_KEY, PInt 30, PInt 1), (EV_KEY, PInt 30, PInt 0),
         (EV_KEY, PInt 30, PInt 1), (EV_KEY, PInt 30, PInt 0)]"
  by code_simp


section \<open>Reading and writing the running macro\<close>

lemma sub_at_upd_at_map_fields:
  "sub_at p (upd_at p (map_fields g) m) = map_fields g (sub_at p m)"
proof (induction p arbitrary: m)
  case Nil
  show ?case by simp
next
  case (Cons i p)
  obtain f cs where m: "m = Macro f cs" by (cases m)
  show ?case
  proof (cases "i < length cs")
    case True
    then show ?thesis using Cons by (simp add: m)
  next
    case False
    then show ?thesis by (simp add: m map_fields_def)
  qed
qed

lemma self_at_upd_self [simp]: "self_at p (upd_self p g w) = g (self_at p w)"
  by (simp add: self_at_def upd_self_def sub_at_upd_at_map_fields map_fields_def)

lemma upd_self_other [simp]:
  "emitted (upd_self p g w) = emitted w"
  "logged (upd_self p g w) = logged w"
  "schedule (upd_self p g w) = schedule w"
  "macro_variables (upd_self p g w) = macro_variables w"
  by (simp_all add: upd_self_def)

section \<open>\<^verbatim>\<open>run\<close> on a macro that is already running\<close>

text \<open>
  Claim C7. A call of \<^verbatim>\<open>run\<close> (with a handler, that is, something callable) on a macro whose
  \<^verbatim>\<open>running\<close> flag is set returns without raising and runs no task: it only writes the log
  line. The whole tree of macro objects is as before the call, so \<^verbatim>\<open>running\<close>, the tasks,
  the event signal and \<^verbatim>\<open>keystroke_sleep_ms\<close> are; nothing was passed to the handler, and the
  variables and the schedule are untouched.
\<close>

theorem run_rejects_running:
  assumes "callable h" and "running (self_at p w)"
  shows "\<exists>w'. run (Suc n) rt h p w = Done w'
           \<and> root w' = root w
           \<and> emitted w' = emitted w
           \<and> macro_variables w' = macro_variables w
           \<and> schedule w' = schedule w
           \<and> logged w' = logged w @ [AlreadyRunning (code (self_at p w))]"
  using assms by (simp add: run_body_def)

text \<open>Witness of C7: \<^verbatim>\<open>k(KEY_A)\<close> with its \<^verbatim>\<open>running\<close> flag set.\<close>

theorem run_rejects_running_witness:
  "callable example_handler \<and> running (self_at [] (start running_k_a Map.empty []))
   \<and> returned (run (Suc 0) example_rt example_handler [] (start running_k_a Map.empty []))
   \<and> events_of (run (Suc 0) example_rt example_handler [] (start running_k_a Map.empty [])) = []
   \<and> log_of (run (Suc 0) example_rt example_handler [] (start running_k_a Map.empty []))
       = [AlreadyRunning (Some ''k(KEY_A)'')]"
proof -
  have c: "callable example_handler" by (simp add: example_handler_def)
  have r: "running (self_at [] (start running_k_a Map.empty []))"
    by (simp add: self_at_def start_def running_k_a_def map_fields_def)
  have cd: "code (self_at [] (start running_k_a Map.empty [])) = Some ''k(KEY_A)''"
    by code_simp
  from run_rejects_running[OF c r, of 0 example_rt]
  obtain w' where w': "run (Suc 0) example_rt example_handler [] (start running_k_a Map.empty []) = Done w'"
    "emitted w' = emitted (start running_k_a Map.empty [])"
    "logged w' = logged (start running_k_a Map.empty [])
        @ [AlreadyRunning (code (self_at [] (start running_k_a Map.empty [])))]"
    by blast
  show ?thesis using c r cd w' by (simp add: start_def)
qed

section \<open>\<^verbatim>\<open>add_event\<close> and the mouse capabilities\<close>

text \<open>
  Claim C9, at the failing input \<^verbatim>\<open>e(EV_REL, REL_X, 1)\<close>. \<^verbatim>\<open>add_event\<close> declares
  \<^verbatim>\<open>REL_X\<close>, \<^verbatim>\<open>REL_Y\<close> and \<^verbatim>\<open>REL_WHEEL\<close> together with the emitted code, and not \<^verbatim>\<open>REL_HWHEEL\<close>,
  which \<^verbatim>\<open>add_mouse_capabilities\<close> (here through \<^verbatim>\<open>mouse(up, 4)\<close>) declares.
\<close>

theorem add_event_rel_misses_hwheel:
  "build_error (add_event example_rt (PStr ''EV_REL'') (PStr ''REL_X'') (PInt 1)
                 (fresh ''e(EV_REL, REL_X, 1)'')) = None
   \<and> tasks (attrs event_rel) = [Event EV_REL (PInt REL_X) (PInt 1), KeycodePause]
   \<and> get_capabilities event_rel EV_REL = Some {PInt REL_X, PInt REL_Y, PInt REL_WHEEL}
   \<and> \<not> declares (get_capabilities event_rel) EV_REL (PInt REL_HWHEEL)
   \<and> declares (get_capabilities mouse_up) EV_REL (PInt REL_HWHEEL)"
  by code_simp

section \<open>\<^verbatim>\<open>add_set\<close>\<close>

text \<open>
  Claim C3, at the failing input \<^verbatim>\<open>set(a, $b)\<close> run while \<^verbatim>\<open>b\<close> holds 5: the step stores the
  \<^verbatim>\<open>Variable\<close> object under \<^verbatim>\<open>a\<close>, not the 5 that \<^verbatim>\<open>b\<close> holds.
\<close>

theorem set_stores_unresolved:
  "build_error (add_set (PStr ''a'') (PVar ''b'') (fresh ''set(a, $b)'')) = None
   \<and> tasks (attrs set_a_b) = [SetVar ''a'' (PVar ''b'')]
   \<and> returned (run 2 example_rt example_handler [] (start set_a_b [''b'' \<mapsto> PInt 5] []))
   \<and> variable_of (run 2 example_rt example_handler [] (start set_a_b [''b'' \<mapsto> PInt 5] [])) ''a''
       = Some (PVar ''b'')
   \<and> variable_of (run 2 example_rt example_handler [] (start set_a_b [''b'' \<mapsto> PInt 5] [])) ''b''
       = Some (PInt 5)"
  by code_simp

section \<open>\<^verbatim>\<open>wheel\<close> with speed 0\<close>

text \<open>
  Claim C8 fails as stated: \<^verbatim>\<open>add_wheel\<close> builds \<^verbatim>\<open>wheel(up, 0)\<close> with the literal speed 0.
\<close>

theorem wheel_zero_is_built:
  "build_error (add_wheel example_rt (PStr ''up'') (PInt 0) (fresh ''wheel(up, 0)'')) = None
   \<and> tasks (attrs wheel_0) = [Wheel REL_WHEEL 1 (PInt 0)]"
  by code_simp

lemma add_mouse_capabilities_ok:
  assumes "capabilities (attrs self) EV_REL = Some s"
  shows "\<exists>self'. add_mouse_capabilities self = Inr self' \<and> tasks (attrs self') = tasks (attrs self)
           \<and> child_macros self' = child_macros self"
  using assms
  by (simp add: add_mouse_capabilities_def add_cap_def caps_add_def bindE_def map_fields_def)

lemma wheel_task_zero:
  assumes "resolve rt (macro_variables w) speed [TInt] = Inr (PInt 0)"
    and "raises h (emitted w) (EV_REL, PInt c, PInt v) = None"
  shows "task (Suc n) r rt h p (Wheel c v speed) w =
             (if is_holding (self_at p w)
              then Raised ZeroDivisionError (w\<lparr>emitted := emitted w @ [(EV_REL, PInt c, PInt v)]\<rparr>)
              else Done w)"
  using assms by (simp add: wheel_task_def andthen_def call_handler_def Let_def)

text \<open>
  Claim C8, as amended. \<^verbatim>\<open>add_wheel\<close> checks the type of the speed only, so it builds
  \<^verbatim>\<open>wheel(direction, 0)\<close> for each of the four directions. The division by zero is met when
  the step runs, whether the 0 is the literal or the value of a variable: a step that finds
  the trigger held passes one wheel event to the handler and then raises
  \<^verbatim>\<open>ZeroDivisionError\<close>; a step that finds the trigger released returns without an error.
\<close>

theorem wheel_zero_deferred:
  assumes "wheel_table (map lower_char d) = Some (c, v)"
    and "capabilities (attrs self) EV_REL = Some s"
    and "resolve rt (macro_variables w) speed [TInt] = Inr (PInt 0)"
    and "raises h (emitted w) (EV_REL, PInt c, PInt v) = None"
  shows "(\<exists>self'. add_wheel rt (PStr d) (PInt 0) self = Inr self'
            \<and> tasks (attrs self') = tasks (attrs self) @ [Wheel c v (PInt 0)])
         \<and> task (Suc n) r rt h p (Wheel c v speed) w =
             (if is_holding (self_at p w)
              then Raised ZeroDivisionError (w\<lparr>emitted := emitted w @ [(EV_REL, PInt c, PInt v)]\<rparr>)
              else Done w)"
proof -
  obtain self' where m: "add_mouse_capabilities self = Inr self'"
    "tasks (attrs self') = tasks (attrs self)"
    using add_mouse_capabilities_ok[OF assms(2)] by blast
  have b: "add_wheel rt (PStr d) (PInt 0) self = Inr (append_task (Wheel c v (PInt 0)) self')"
    using assms(1) m(1)
    by (simp add: add_wheel_def type_check_def bindE_def direction_lookup_def)
  have t: "tasks (attrs (append_task (Wheel c v (PInt 0)) self'))
             = tasks (attrs self) @ [Wheel c v (PInt 0)]"
    using m(2) by (simp add: append_task_def map_fields_def)
  from b t wheel_task_zero[OF assms(3,4)] show ?thesis by simp
qed

text \<open>
  Witness of C8: \<^verbatim>\<open>wheel(up, 0)\<close> is built, and the step with a variable that holds 0, run
  while the trigger is held, emits one event and raises.
\<close>

theorem wheel_zero_deferred_witness:
  "wheel_table (map lower_char ''up'') = Some (REL_WHEEL, 1)
   \<and> resolve example_rt [''s'' \<mapsto> PInt 0] (PVar ''s'') [TInt] = Inr (PInt 0)
   \<and> build_error (add_wheel example_rt (PStr ''up'') (PInt 0) (fresh ''wheel(up, 0)'')) = None
   \<and> task (Suc 0) (\<lambda>q w. Hang) example_rt example_handler [] (Wheel REL_WHEEL 1 (PVar ''s''))
        (start (press_trigger wheel_0) [''s'' \<mapsto> PInt 0] [])
      = Raised ZeroDivisionError
          ((start (press_trigger wheel_0) [''s'' \<mapsto> PInt 0] [])
             \<lparr>emitted := [(EV_REL, PInt REL_WHEEL, PInt 1)]\<rparr>)"
proof -
  let ?w = "start (press_trigger wheel_0) [''s'' \<mapsto> PInt 0] []"
  have h1: "wheel_table (map lower_char ''up'') = Some (REL_WHEEL, 1)" by code_simp
  have h2: "capabilities (attrs (fresh ''wheel(up, 0)'')) EV_REL = Some {}"
    by (simp add: fresh_def Macro_init_def EV_REL_def EV_KEY_def)
  have h3: "resolve example_rt (macro_variables ?w) (PVar ''s'') [TInt] = Inr (PInt 0)"
    by (simp add: start_def resolve_def store_get_def type_check_def)
  have h4: "raises example_handler (emitted ?w) (EV_REL, PInt REL_WHEEL, PInt 1) = None"
    by (simp add: example_handler_def)
  have h5: "is_holding (self_at [] ?w)" by code_simp
  have e: "emitted ?w = []" by (simp add: start_def)
  have v: "macro_variables ?w = [''s'' \<mapsto> PInt 0]" by (simp add: start_def)
  from wheel_zero_deferred[OF h1 h2 h3 h4, where n = 0 and r = "\<lambda>q w. Hang" and p = "[]"]
       h1 h3 h5 e v
  show ?thesis by (auto simp del: task.simps)
qed

section \<open>A task that raises\<close>

lemma run_tasks_append:
  "run_tasks n r rt h p (xs @ ys) w
     = andthen (run_tasks n r rt h p xs) (run_tasks n r rt h p ys) w"
  by (induction xs arbitrary: w) (auto simp: andthen_def split: res.splits)

text \<open>
  Claim C6, as amended. Let the tasks of a macro be \<open>pre @ t # post\<close>, let a run of the macro (one that
  is not rejected) execute the tasks \<open>pre\<close> and let the task \<open>t\<close> then raise an exception
  \<open>e\<close> (an \<^verbatim>\<open>Exception\<close>). Then the run returns; the state it returns is the state in which
  \<open>t\<close> raised, but for the log line, which holds the source text of the macro and \<open>e\<close>, and
  for \<^verbatim>\<open>running\<close>, which is false. So no task of \<open>post\<close> was executed: nothing more went to the
  handler, and the variables and the schedule are as \<open>t\<close> left them.
\<close>

theorem run_step_exception:
  assumes "callable h" and "\<not> running (self_at p w)"
    and "macro_context (self_at p w) = Some ms"
    and "tasks (self_at p w) = pre @ t # post"
    and "run_tasks n (\<lambda>q w'. run n rt h q w') rt h p pre (started p ms w) = Done w4"
    and "task n (\<lambda>q w'. run n rt h q w') rt h p t w4 = Raised e w5"
    and "is_Exception e"
  shows "\<exists>w'. run (Suc n) rt h p w = Done w'
           \<and> running (self_at p w') = False
           \<and> logged w' = logged w5 @ [MacroFailed (code (self_at p w5)) e]
           \<and> emitted w' = emitted w5
           \<and> macro_variables w' = macro_variables w5
           \<and> schedule w' = schedule w5
           \<and> w' = upd_self p (\<lambda>f. f\<lparr>running := False\<rparr>)
                     (w5\<lparr>logged := logged w5 @ [MacroFailed (code (self_at p w5)) e]\<rparr>)"
proof -
  let ?r = "\<lambda>q w'. run n rt h q w'"
  have ts: "tasks (self_at p (started p ms w)) = pre @ t # post"
    using assms(4) by (simp add: started_def)
  have "run_tasks n ?r rt h p (pre @ t # post) (started p ms w) = Raised e w5"
    using assms(5,6) by (simp add: run_tasks_append andthen_def)
  then have "run_body n ?r rt h p w =
      Done (upd_self p (\<lambda>f. f\<lparr>running := False\<rparr>)
             (w5\<lparr>logged := logged w5 @ [MacroFailed (code (self_at p w5)) e]\<rparr>))"
    using assms(1,2,3,7) ts by (simp add: run_body_def started_def Let_def)
  then show ?thesis by simp
qed

text \<open>
  Witness of C6: \<^verbatim>\<open>wheel(up, 0).k(KEY_A)\<close> run while the trigger is held. The wheel task
  raises \<^verbatim>\<open>ZeroDivisionError\<close> after its first event; the key is never pressed.
\<close>

theorem run_step_exception_witness:
  "callable example_handler
   \<and> tasks (attrs wheel_0_then_key) = [Wheel REL_WHEEL 1 (PInt 0), Key (PInt 30)]
   \<and> returned (run 2 example_rt example_handler []
        (start (press_trigger wheel_0_then_key) Map.empty [Resume [], Resume []]))
   \<and> running_of (run 2 example_rt example_handler []
        (start (press_trigger wheel_0_then_key) Map.empty [Resume [], Resume []])) = Some False
   \<and> log_of (run 2 example_rt example_handler []
        (start (press_trigger wheel_0_then_key) Map.empty [Resume [], Resume []]))
      = [MacroFailed (Some ''wheel(up, 0).k(KEY_A)'') ZeroDivisionError]
   \<and> events_of (run 2 example_rt example_handler []
        (start (press_trigger wheel_0_then_key) Map.empty [Resume [], Resume []]))
      = [(EV_REL, PInt REL_WHEEL, PInt 1)]"
proof -
  let ?w = "start (press_trigger wheel_0_then_key) Map.empty [Resume [], Resume []]"
  let ?r = "\<lambda>q w'. run (Suc 0) example_rt example_handler q w'"
  let ?w3 = "started [] (PInt 10) ?w"
  have h1: "callable example_handler" by (simp add: example_handler_def)
  have h2: "\<not> running (self_at [] ?w)" by code_simp
  have h3: "macro_context (self_at [] ?w) = Some (PInt 10)" by code_simp
  have h4: "tasks (self_at [] ?w) = [] @ Wheel REL_WHEEL 1 (PInt 0) # [Key (PInt 30)]"
    by code_simp
  have h5: "run_tasks (Suc 0) ?r example_rt example_handler [] [] ?w3 = Done ?w3" by simp
  have hold: "is_holding (self_at [] ?w3)" by code_simp
  have h6: "task (Suc 0) ?r example_rt example_handler [] (Wheel REL_WHEEL 1 (PInt 0)) ?w3
              = Raised ZeroDivisionError
                  (?w3\<lparr>emitted := emitted ?w3 @ [(EV_REL, PInt REL_WHEEL, PInt 1)]\<rparr>)"
    using hold
    by (subst wheel_task_zero) (simp_all add: resolve_def example_handler_def)
  have h7: "is_Exception ZeroDivisionError" by simp
  have two: "(2::nat) = Suc (Suc 0)" by simp
  from run_step_exception[OF h1 h2 h3 h4 h5 h6 h7]
  have ret: "returned (run 2 example_rt example_handler [] ?w)"
    unfolding two by auto
  have t: "tasks (attrs wheel_0_then_key) = [Wheel REL_WHEEL 1 (PInt 0), Key (PInt 30)]"
    by code_simp
  have ru: "running_of (run 2 example_rt example_handler [] ?w) = Some False" by code_simp
  have lo: "log_of (run 2 example_rt example_handler [] ?w)
      = [MacroFailed (Some ''wheel(up, 0).k(KEY_A)'') ZeroDivisionError]" by code_simp
  have ev: "events_of (run 2 example_rt example_handler [] ?w)
      = [(EV_REL, PInt REL_WHEEL, PInt 1)]"
    by code_simp
  from h1 t ret ru lo ev show ?thesis by blast
qed

text \<open>
  Claim C6 fails as stated, on the exit path of a cancellation: \<^verbatim>\<open>asyncio.CancelledError\<close> is
  no \<^verbatim>\<open>Exception\<close>, so the handler of \<^verbatim>\<open>run\<close> does not catch it and there is no \<^verbatim>\<open>finally\<close>.
  \<^verbatim>\<open>h(KEY_A)\<close>, cancelled while it waits for the release of the trigger, leaves \<^verbatim>\<open>run\<close> by
  that exception with nothing logged and \<^verbatim>\<open>running\<close> still true.
\<close>

theorem run_cancelled_stays_running:
  "tasks (attrs hold_a) = [HoldKey (PInt 30)]
   \<and> raised_of (run 2 example_rt example_handler []
        (start (press_trigger hold_a) Map.empty [Cancel])) = Some CancelledError
   \<and> running_of (run 2 example_rt example_handler []
        (start (press_trigger hold_a) Map.empty [Cancel])) = Some True
   \<and> log_of (run 2 example_rt example_handler []
        (start (press_trigger hold_a) Map.empty [Cancel])) = []
   \<and> events_of (run 2 example_rt example_handler []
        (start (press_trigger hold_a) Map.empty [Cancel])) = [(EV_KEY, PInt 30, PInt 1)]"
  by code_simp


section \<open>The conditionals\<close>

lemma resolve_untyped: "resolve rt vars v [] = Inr (deref vars v)"
  by (simp add: resolve_def deref_def split: pyval.splits)

lemma declares_merge:
  "declares (merge_caps a b) t c \<longleftrightarrow> declares a t c \<or> declares b t c"
  by (auto simp: declares_def merge_caps_def split: option.splits)

lemma declares_fold:
  "declares (fold (\<lambda>m acc. merge_caps acc (g m)) cs init) t c
     \<longleftrightarrow> declares init t c \<or> (\<exists>m \<in> set cs. declares (g m) t c)"
  by (induction cs arbitrary: init) (auto simp: declares_merge)

lemma declares_get_capabilities:
  "declares (get_capabilities m) t c
     \<longleftrightarrow> declares (capabilities (attrs m)) t c
         \<or> (\<exists>k \<in> set (child_macros m). declares (get_capabilities k) t c)"
  by (cases m) (simp add: declares_fold)

lemma type_check_branch: "type_check rt (branch_val b) [TMacro, TNone] = Inr (branch_val b)"
  by (cases b) (simp_all add: type_check_def)

lemma append_branches:
  "child_macros (append_task s (append_branch e (append_branch t self)))
     = child_macros self @ branch_list t @ branch_list e"
  "attrs (append_task s (append_branch e (append_branch t self)))
     = (attrs self)\<lparr>tasks := tasks (attrs self) @ [s]\<rparr>"
  by (cases t; cases e; simp add: append_task_def append_child_def map_fields_def)+

lemma branch_refs:
  "then_ref t self = map_option (\<lambda>_. length (child_macros self)) t"
  "else_ref t e self = map_option (\<lambda>_. length (child_macros self) + length (branch_list t)) e"
  by (cases t; cases e; simp add: then_ref_def else_ref_def append_child_def)+

lemma run_branch_ref:
  assumes "child_macros (sub_at p (root w)) = cs" and "\<And>i. b = Some i \<Longrightarrow> i < length cs"
  shows "run_branch b (\<lambda>i. on_child p i r) w = (case b of None \<Rightarrow> Done w | Some i \<Rightarrow> r (p @ [i]) w)"
  using assms by (cases b) (simp_all add: run_branch_def on_child_def)

text \<open>
  Claim C5, as amended. Both builders always succeed; they append the branches that are
  macros to \<^verbatim>\<open>child_macros\<close> and a step that names their positions there, \<open>then_ref\<close> and
  \<open>else_ref\<close>. Take a macro at path \<open>p\<close> whose children are those the builder has left.
  The step of \<^verbatim>\<open>add_if_eq\<close> dereferences both operands and compares the values with \<^verbatim>\<open>==\<close>;
  the step of \<^verbatim>\<open>add_ifeq\<close> looks up the value stored under its first operand, taken as a
  variable name, and compares it with the second operand as it was given, without
  dereferencing it. On equality the result of either step is the result of \<^verbatim>\<open>run\<close> on the
  child at \<open>then_ref\<close>, which is the \<^verbatim>\<open>then\<close> branch, and otherwise the result of \<^verbatim>\<open>run\<close> on
  the child at \<open>else_ref\<close>, which is the \<^verbatim>\<open>else\<close> branch; where the branch is absent the step
  returns at once and changes nothing. Whatever a branch declares is declared by
  \<^verbatim>\<open>get_capabilities\<close> of the macro built.
\<close>

theorem conditionals:
  assumes "child_macros (sub_at p (root w)) = child_macros self @ branch_list t @ branch_list e"
  shows
  "add_if_eq rt value_1 value_2 t e self =
     Inr (append_task (IfEq value_1 value_2 (then_ref t self) (else_ref t e self))
            (append_branch e (append_branch t self)))
   \<and> add_ifeq rt variable val t e self =
     Inr (append_task (Ifeq variable val (then_ref t self) (else_ref t e self))
            (append_branch e (append_branch t self)))
   \<and> task n (\<lambda>q w'. run n rt h q w') rt h p
        (IfEq value_1 value_2 (then_ref t self) (else_ref t e self)) w =
     (case (if py_eq (deref (macro_variables w) value_1) (deref (macro_variables w) value_2)
            then then_ref t self else else_ref t e self) of
        None \<Rightarrow> Done w
      | Some i \<Rightarrow> run n rt h (p @ [i]) w)
   \<and> task n (\<lambda>q w'. run n rt h q w') rt h p
        (Ifeq variable val (then_ref t self) (else_ref t e self)) w =
     (case (if py_eq (store_get (macro_variables w) variable) val
            then then_ref t self else else_ref t e self) of
        None \<Rightarrow> Done w
      | Some i \<Rightarrow> run n rt h (p @ [i]) w)
   \<and> map_option (\<lambda>i. child_macros (sub_at p (root w)) ! i) (then_ref t self) = t
   \<and> map_option (\<lambda>i. child_macros (sub_at p (root w)) ! i) (else_ref t e self) = e
   \<and> child_macros (append_task s (append_branch e (append_branch t self)))
     = child_macros self @ branch_list t @ branch_list e
   \<and> (\<forall>m \<in> set (branch_list t @ branch_list e). \<forall>ty c.
         declares (get_capabilities m) ty c \<longrightarrow>
         declares (get_capabilities (append_task s (append_branch e (append_branch t self)))) ty c)"
proof -
  let ?r = "\<lambda>q w'. run n rt h q w'"
  let ?cs = "child_macros self @ branch_list t @ branch_list e"
  have bt: "\<And>i. then_ref t self = Some i \<Longrightarrow> i < length ?cs"
    by (cases t) (auto simp: branch_refs)
  have be: "\<And>i. else_ref t e self = Some i \<Longrightarrow> i < length ?cs"
    by (cases t; cases e) (auto simp: branch_refs)
  note rt = run_branch_ref[where r = ?r, OF assms bt] 
  note re = run_branch_ref[where r = ?r, OF assms be]
  have c: "add_if_eq rt value_1 value_2 t e self =
     Inr (append_task (IfEq value_1 value_2 (then_ref t self) (else_ref t e self))
            (append_branch e (append_branch t self)))"
    by (simp add: add_if_eq_def type_check_branch bindE_def)
  have d: "add_ifeq rt variable val t e self =
     Inr (append_task (Ifeq variable val (then_ref t self) (else_ref t e self))
            (append_branch e (append_branch t self)))"
    by (simp add: add_ifeq_def type_check_branch bindE_def)
  have a: "task n ?r rt h p
        (IfEq value_1 value_2 (then_ref t self) (else_ref t e self)) w =
     (case (if py_eq (deref (macro_variables w) value_1) (deref (macro_variables w) value_2)
            then then_ref t self else else_ref t e self) of
        None \<Rightarrow> Done w
      | Some i \<Rightarrow> run n rt h (p @ [i]) w)"
    by (simp add: if_eq_task_def resolve_untyped rt re)
  have b: "task n ?r rt h p
        (Ifeq variable val (then_ref t self) (else_ref t e self)) w =
     (case (if py_eq (store_get (macro_variables w) variable) val
            then then_ref t self else else_ref t e self) of
        None \<Rightarrow> Done w
      | Some i \<Rightarrow> run n rt h (p @ [i]) w)"
    by (simp add: ifeq_task_def rt re)
  have pt: "map_option (\<lambda>i. child_macros (sub_at p (root w)) ! i) (then_ref t self) = t"
    unfolding assms by (cases t) (simp_all add: branch_refs)
  have pe: "map_option (\<lambda>i. child_macros (sub_at p (root w)) ! i) (else_ref t e self) = e"
    unfolding assms by (cases t; cases e) (simp_all add: branch_refs nth_append)
  have k: "child_macros (append_task s (append_branch e (append_branch t self)))
     = child_macros self @ branch_list t @ branch_list e"
    by (rule append_branches)
  have g: "\<forall>m \<in> set (branch_list t @ branch_list e). \<forall>ty c.
         declares (get_capabilities m) ty c \<longrightarrow>
         declares (get_capabilities (append_task s (append_branch e (append_branch t self)))) ty c"
    by (subst (2) declares_get_capabilities) (auto simp: k)
  from c d a b pt pe k g show ?thesis by blast
qed

text \<open>
  Witness of C5: the steps of \<^verbatim>\<open>if_eq($a, $b, k(KEY_A), k(KEY_B))\<close> and of
  \<^verbatim>\<open>ifeq(a, 5, k(KEY_A), k(KEY_B))\<close>, run on equal operands, press \<^verbatim>\<open>KEY_A\<close>, and run on
  unequal operands, press \<^verbatim>\<open>KEY_B\<close>. The first macro has both branches as children and
  declares the key of its \<^verbatim>\<open>else\<close> branch.
\<close>

theorem conditionals_witness:
  "child_macros (sub_at [] (root (start if_eq_a_b [''a'' \<mapsto> PInt 5, ''b'' \<mapsto> PInt 5] [Resume [], Resume []])))
     = child_macros (fresh ''if_eq($a, $b, k(KEY_A), k(KEY_B))'')
         @ branch_list (Some k_a) @ branch_list (Some k_b)
   \<and> k_b \<in> set (branch_list (Some k_a) @ branch_list (Some k_b))
   \<and> declares (get_capabilities k_b) EV_KEY (PInt 48)
   \<and> tasks (attrs if_eq_a_b) = [IfEq (PVar ''a'') (PVar ''b'') (Some 0) (Some 1)]
   \<and> events_of (task 3 (\<lambda>q w'. run 3 example_rt example_handler q w') example_rt example_handler []
        (IfEq (PVar ''a'') (PVar ''b'') (Some 0) (Some 1))
        (start if_eq_a_b [''a'' \<mapsto> PInt 5, ''b'' \<mapsto> PInt 5] [Resume [], Resume []]))
      = [(EV_KEY, PInt 30, PInt 1), (EV_KEY, PInt 30, PInt 0)]
   \<and> events_of (task 3 (\<lambda>q w'. run 3 example_rt example_handler q w') example_rt example_handler []
        (IfEq (PVar ''a'') (PVar ''b'') (Some 0) (Some 1))
        (start if_eq_a_b [''a'' \<mapsto> PInt 5, ''b'' \<mapsto> PInt 6] [Resume [], Resume []]))
      = [(EV_KEY, PInt 48, PInt 1), (EV_KEY, PInt 48, PInt 0)]
   \<and> tasks (attrs ifeq_a_5) = [Ifeq (PStr ''a'') (PInt 5) (Some 0) (Some 1)]
   \<and> events_of (task 3 (\<lambda>q w'. run 3 example_rt example_handler q w') example_rt example_handler []
        (Ifeq (PStr ''a'') (PInt 5) (Some 0) (Some 1))
        (start ifeq_a_5 [''a'' \<mapsto> PInt 5] [Resume [], Resume []]))
      = [(EV_KEY, PInt 30, PInt 1), (EV_KEY, PInt 30, PInt 0)]
   \<and> events_of (task 3 (\<lambda>q w'. run 3 example_rt example_handler q w') example_rt example_handler []
        (Ifeq (PStr ''a'') (PInt 5) (Some 0) (Some 1))
        (start ifeq_a_5 [''a'' \<mapsto> PInt 6] [Resume [], Resume []]))
      = [(EV_KEY, PInt 48, PInt 1), (EV_KEY, PInt 48, PInt 0)]
   \<and> child_macros if_eq_a_b = [k_a, k_b]
   \<and> declares (get_capabilities if_eq_a_b) EV_KEY (PInt 48)"
proof -
  let ?self = "fresh ''if_eq($a, $b, k(KEY_A), k(KEY_B))''"
  let ?self' = "fresh ''ifeq(a, 5, k(KEY_A), k(KEY_B))''"
  let ?ticks = "[Resume [], Resume []]"
  let ?r = "\<lambda>q w'. run 3 example_rt example_handler q w'"
  let ?s = "IfEq (PVar ''a'') (PVar ''b'') (then_ref (Some k_a) ?self)
              (else_ref (Some k_a) (Some k_b) ?self)"
  let ?s' = "Ifeq (PStr ''a'') (PInt 5) (then_ref (Some k_a) ?self')
              (else_ref (Some k_a) (Some k_b) ?self')"
  let ?m = "append_task ?s (append_branch (Some k_b) (append_branch (Some k_a) ?self))"
  let ?m' = "append_task ?s' (append_branch (Some k_b) (append_branch (Some k_a) ?self'))"
  have e: "child_macros ?self = []" "child_macros ?self' = []"
    by (simp_all add: fresh_def Macro_init_def)
  have refs: "then_ref (Some k_a) ?self = Some 0" "else_ref (Some k_a) (Some k_b) ?self = Some 1"
    "then_ref (Some k_a) ?self' = Some 0" "else_ref (Some k_a) (Some k_b) ?self' = Some 1"
    by (simp_all add: fresh_def Macro_init_def then_ref_def else_ref_def append_child_def)
  have eq: "if_eq_a_b = ?m"
    unfolding if_eq_a_b_def by (simp add: add_if_eq_def bindE_def type_check_def)
  have eq': "ifeq_a_5 = ?m'"
    unfolding ifeq_a_5_def by (simp add: add_ifeq_def bindE_def type_check_def)
  have ch: "child_macros if_eq_a_b = [k_a, k_b]"
    unfolding eq append_branches e by simp
  have ch': "child_macros ifeq_a_5 = [k_a, k_b]"
    unfolding eq' append_branches e by simp
  have hyp: "\<And>vars. child_macros (sub_at [] (root (start if_eq_a_b vars ?ticks)))
      = child_macros ?self @ branch_list (Some k_a) @ branch_list (Some k_b)"
    by (simp add: start_def ch e)
  have hyp': "\<And>vars. child_macros (sub_at [] (root (start ifeq_a_5 vars ?ticks)))
      = child_macros ?self' @ branch_list (Some k_a) @ branch_list (Some k_b)"
    by (simp add: start_def ch' e)
  note c = conditionals[where t = "Some k_a" and e = "Some k_b" and self = ?self
      and rt = example_rt and h = example_handler and n = 3 and p = "[]" and s = ?s
      and ?value_1.0 = "PVar ''a''" and ?value_2.0 = "PVar ''b''", OF hyp]
  note c' = conditionals[where t = "Some k_a" and e = "Some k_b" and self = ?self'
      and rt = example_rt and h = example_handler and n = 3 and p = "[]"
      and variable = "PStr ''a''" and val = "PInt 5", OF hyp']
  note c3 = c[THEN conjunct2, THEN conjunct2, THEN conjunct1, unfolded refs]
  note c4 = c'[THEN conjunct2, THEN conjunct2, THEN conjunct2, THEN conjunct1, unfolded refs]
  note c8 = c[THEN conjunct2, THEN conjunct2, THEN conjunct2, THEN conjunct2, THEN conjunct2,
              THEN conjunct2, THEN conjunct2]
  have m: "k_b \<in> set (branch_list (Some k_a) @ branch_list (Some k_b))" by simp
  have d: "declares (get_capabilities k_b) EV_KEY (PInt 48)" by code_simp
  have t: "tasks (attrs if_eq_a_b) = [IfEq (PVar ''a'') (PVar ''b'') (Some 0) (Some 1)]"
    by code_simp
  have t': "tasks (attrs ifeq_a_5) = [Ifeq (PStr ''a'') (PInt 5) (Some 0) (Some 1)]"
    by code_simp
  have r1: "events_of (task 3 ?r example_rt example_handler []
        (IfEq (PVar ''a'') (PVar ''b'') (Some 0) (Some 1))
        (start if_eq_a_b [''a'' \<mapsto> PInt 5, ''b'' \<mapsto> PInt 5] ?ticks))
      = [(EV_KEY, PInt 30, PInt 1), (EV_KEY, PInt 30, PInt 0)]"
    unfolding c3 by code_simp
  have r2: "events_of (task 3 ?r example_rt example_handler []
        (IfEq (PVar ''a'') (PVar ''b'') (Some 0) (Some 1))
        (start if_eq_a_b [''a'' \<mapsto> PInt 5, ''b'' \<mapsto> PInt 6] ?ticks))
      = [(EV_KEY, PInt 48, PInt 1), (EV_KEY, PInt 48, PInt 0)]"
    unfolding c3 by code_simp
  have r3: "events_of (task 3 ?r example_rt example_handler []
        (Ifeq (PStr ''a'') (PInt 5) (Some 0) (Some 1))
        (start ifeq_a_5 [''a'' \<mapsto> PInt 5] ?ticks))
      = [(EV_KEY, PInt 30, PInt 1), (EV_KEY, PInt 30, PInt 0)]"
    unfolding c4 by code_simp
  have r4: "events_of (task 3 ?r example_rt example_handler []
        (Ifeq (PStr ''a'') (PInt 5) (Some 0) (Some 1))
        (start ifeq_a_5 [''a'' \<mapsto> PInt 6] ?ticks))
      = [(EV_KEY, PInt 48, PInt 1), (EV_KEY, PInt 48, PInt 0)]"
    unfolding c4 by code_simp
  have "declares (get_capabilities ?m) EV_KEY (PInt 48)"
    using c8 m d by blast
  then have g: "declares (get_capabilities if_eq_a_b) EV_KEY (PInt 48)"
    unfolding eq .
  from hyp[of "[''a'' \<mapsto> PInt 5, ''b'' \<mapsto> PInt 5]"] m d t r1 r2 t' r3 r4 ch g
  show ?thesis by blast
qed

text \<open>
  Claim C5 fails as stated: with 5 stored under both \<^verbatim>\<open>a\<close> and \<^verbatim>\<open>b\<close>,
  \<^verbatim>\<open>ifeq(a, $b, k(KEY_A), k(KEY_B))\<close> compares 5 with the \<^verbatim>\<open>Variable\<close> object and presses
  \<^verbatim>\<open>KEY_B\<close>, where \<^verbatim>\<open>if_eq($a, $b, k(KEY_A), k(KEY_B))\<close> presses \<^verbatim>\<open>KEY_A\<close>.
\<close>

theorem ifeq_compares_unresolved:
  "build_error (add_ifeq example_rt (PStr ''a'') (PVar ''b'') (Some k_a) (Some k_b)
                  (fresh ''ifeq(a, $b, k(KEY_A), k(KEY_B))'')) = None
   \<and> tasks (attrs ifeq_a_b) = [Ifeq (PStr ''a'') (PVar ''b'') (Some 0) (Some 1)]
   \<and> events_of (run 5 example_rt example_handler []
        (start ifeq_a_b [''a'' \<mapsto> PInt 5, ''b'' \<mapsto> PInt 5] [Resume [], Resume []]))
      = [(EV_KEY, PInt 48, PInt 1), (EV_KEY, PInt 48, PInt 0)]
   \<and> events_of (run 5 example_rt example_handler []
        (start if_eq_a_b [''a'' \<mapsto> PInt 5, ''b'' \<mapsto> PInt 5] [Resume [], Resume []]))
      = [(EV_KEY, PInt 30, PInt 1), (EV_KEY, PInt 30, PInt 0)]"
  by code_simp

section \<open>\<^verbatim>\<open>set\<close> followed by \<^verbatim>\<open>if_eq\<close>\<close>

lemma float_eq_refl: "f \<noteq> NaN \<Longrightarrow> float_eq f f"
  by (cases f) simp_all

lemma literal_eq: "literal v \<Longrightarrow> py_eq v v \<and> deref vars v = v"
  by (cases v) (auto simp: deref_def float_eq_refl)

lemma build_ok: "build_error r = None \<Longrightarrow> r = Inr (the_macro r)"
  by (cases r) simp_all

text \<open>
  Claim C4, as amended. For every variable name \<open>x\<close>, every literal \<open>v\<close> that is an integer,
  a string or a float other than NaN, and every pair of branches: \<^verbatim>\<open>add_set(x, v)\<close> followed
  by \<^verbatim>\<open>add_if_eq($x, v, then, else)\<close> appends the two steps, and running the two steps is
  storing \<open>v\<close> under \<open>x\<close> and running the \<^verbatim>\<open>then\<close> branch: the \<^verbatim>\<open>else\<close> branch is never run.
\<close>

theorem set_then_if_eq_takes_then:
  assumes "literal v"
    and "add_set (PStr x) v self = Inr s1"
    and "add_if_eq rt (PVar x) v thn els s1 = Inr s2"
  shows "tasks (attrs s2) = tasks (attrs self)
           @ [SetVar x v, IfEq (PVar x) v (then_ref thn self) (else_ref thn els self)]
         \<and> run_tasks n r rt h p [SetVar x v, IfEq (PVar x) v t e] w
           = run_branch t (\<lambda>i. on_child p i r) (w\<lparr>macro_variables := (macro_variables w)(x \<mapsto> v)\<rparr>)"
proof -
  have s1: "s1 = append_task (SetVar x v) self"
    using assms(2) by (auto simp: add_set_def bindE_def type_check_variablename_def split: if_splits)
  have s2: "s2 = append_task (IfEq (PVar x) v (then_ref thn s1) (else_ref thn els s1))
                   (append_branch els (append_branch thn s1))"
    using assms(3) by (simp add: add_if_eq_def type_check_branch bindE_def)
  have ch: "child_macros s1 = child_macros self" "tasks (attrs s1) = tasks (attrs self) @ [SetVar x v]"
    by (simp_all add: s1 append_task_def map_fields_def)
  have refs: "then_ref thn s1 = then_ref thn self" "else_ref thn els s1 = else_ref thn els self"
    using ch(1) by (cases thn; cases els; simp add: then_ref_def else_ref_def append_child_def)+
  have t: "tasks (attrs s2) = tasks (attrs self)
           @ [SetVar x v, IfEq (PVar x) v (then_ref thn self) (else_ref thn els self)]"
    unfolding s2 by (simp add: append_branches ch refs)
  have r: "run_tasks n r rt h p [SetVar x v, IfEq (PVar x) v t e] w
           = run_branch t (\<lambda>i. on_child p i r) (w\<lparr>macro_variables := (macro_variables w)(x \<mapsto> v)\<rparr>)"
    using literal_eq[OF assms(1)]
    by (simp add: andthen_def set_task_def resolve_untyped if_eq_task_def deref_def store_get_def
        split: res.splits)
  from t r show ?thesis by simp
qed

text \<open>Witness of C4: \<^verbatim>\<open>set(x, 5).if_eq($x, 5, k(KEY_A), k(KEY_B))\<close> presses \<^verbatim>\<open>KEY_A\<close>.\<close>

theorem set_then_if_eq_takes_then_witness:
  "literal (PInt 5)
   \<and> build_error (add_set (PStr ''x'') (PInt 5) (fresh ''set(x, v).if_eq($x, v, k(KEY_A), k(KEY_B))'')) = None
   \<and> tasks (attrs (set_then_if_eq (PInt 5)))
       = [SetVar ''x'' (PInt 5), IfEq (PVar ''x'') (PInt 5) (Some 0) (Some 1)]
   \<and> events_of (run 5 example_rt example_handler []
        (start (set_then_if_eq (PInt 5)) Map.empty [Resume [], Resume []]))
      = [(EV_KEY, PInt 30, PInt 1), (EV_KEY, PInt 30, PInt 0)]"
proof -
  let ?self = "fresh ''set(x, v).if_eq($x, v, k(KEY_A), k(KEY_B))''"
  have l: "literal (PInt 5)" by simp
  have be: "build_error (add_set (PStr ''x'') (PInt 5) ?self) = None" by code_simp
  have a: "add_set (PStr ''x'') (PInt 5) ?self = Inr (the_macro (add_set (PStr ''x'') (PInt 5) ?self))"
    using be by (rule build_ok)
  have b: "add_if_eq example_rt (PVar ''x'') (PInt 5) (Some k_a) (Some k_b)
             (the_macro (add_set (PStr ''x'') (PInt 5) ?self)) = Inr (set_then_if_eq (PInt 5))"
    unfolding set_then_if_eq_def by (rule build_ok) code_simp
  have t0: "tasks (attrs ?self) = []" "then_ref (Some k_a) ?self = Some 0"
    "else_ref (Some k_a) (Some k_b) ?self = Some 1"
    by (simp_all add: fresh_def Macro_init_def then_ref_def else_ref_def append_child_def)
  from set_then_if_eq_takes_then[OF l a b]
  have t: "tasks (attrs (set_then_if_eq (PInt 5)))
       = [SetVar ''x'' (PInt 5), IfEq (PVar ''x'') (PInt 5) (Some 0) (Some 1)]"
    by (simp add: t0)
  have ev: "events_of (run 5 example_rt example_handler []
        (start (set_then_if_eq (PInt 5)) Map.empty [Resume [], Resume []]))
      = [(EV_KEY, PInt 30, PInt 1), (EV_KEY, PInt 30, PInt 0)]"
    by code_simp
  from l be t ev show ?thesis by blast
qed

text \<open>
  Claim C4 fails as stated: with the literal NaN, which equals nothing, the sequence takes
  the \<^verbatim>\<open>else\<close> branch and presses \<^verbatim>\<open>KEY_B\<close>. So it does with the variable reference \<^verbatim>\<open>$b\<close>
  while \<^verbatim>\<open>b\<close> holds 5, since \<^verbatim>\<open>set\<close> has stored the \<^verbatim>\<open>Variable\<close> object under \<^verbatim>\<open>x\<close>.
\<close>

theorem set_then_if_eq_takes_else:
  "tasks (attrs (set_then_if_eq (PFloat NaN)))
       = [SetVar ''x'' (PFloat NaN), IfEq (PVar ''x'') (PFloat NaN) (Some 0) (Some 1)]
   \<and> events_of (run 5 example_rt example_handler []
        (start (set_then_if_eq (PFloat NaN)) Map.empty [Resume [], Resume []]))
      = [(EV_KEY, PInt 48, PInt 1), (EV_KEY, PInt 48, PInt 0)]
   \<and> tasks (attrs (set_then_if_eq (PVar ''b'')))
       = [SetVar ''x'' (PVar ''b''), IfEq (PVar ''x'') (PVar ''b'') (Some 0) (Some 1)]
   \<and> events_of (run 5 example_rt example_handler []
        (start (set_then_if_eq (PVar ''b'')) [''b'' \<mapsto> PInt 5] [Resume [], Resume []]))
      = [(EV_KEY, PInt 48, PInt 1), (EV_KEY, PInt 48, PInt 0)]"
  by code_simp

end
